theory Spec2Isabelle
  imports Complex_Main
begin

section \<open>Common: Python errors as values\<close>

text \<open>
  Every \<^verbatim>\<open>raise\<close> of the scripts, and every failure of a library call they make, is a
  value of \<open>py_error\<close>; a computation that may raise returns \<open>py_error + 'a\<close>
  with \<open>Inl\<close> for the exception. \<open>bindE\<close> is sequencing: the first exception
  aborts what follows, as an uncaught Python exception does.
\<close>

datatype py_error =
    FileNotFoundError
  | IndexError
  | ValueError
  | ZeroDivisionError
  | NameError string
  | UnboundLocalError string
  | RuntimeError
  | TypeError
  | AssertionError

definition bindE :: "py_error + 'a \<Rightarrow> ('a \<Rightarrow> py_error + 'b) \<Rightarrow> py_error + 'b" where
  "bindE m f = (case m of Inl e \<Rightarrow> Inl e | Inr v \<Rightarrow> f v)"

text \<open>\<open>map_result\<close> applies a function to a returned value and keeps an exception.\<close>

definition map_result :: "('a \<Rightarrow> 'b) \<Rightarrow> py_error + 'a \<Rightarrow> py_error + 'b" where
  "map_result f r = (case r of Inl e \<Rightarrow> Inl e | Inr v \<Rightarrow> Inr (f v))"

section \<open>make_master_cubes_multiproc.py\<close>

subsection \<open>shape_noise\<close>

text \<open>
  Python floats are modelled as reals; \<open>None\<close> stands for \<^verbatim>\<open>nan\<close>, which
  \<^verbatim>\<open>np.sqrt\<close> returns (with a warning, not an exception) on a negative variance.
  The division is Python's float division, which raises \<^verbatim>\<open>ZeroDivisionError\<close> on a zero
  divisor. The \<^verbatim>\<open>print\<close> is not modelled.
\<close>

definition sigma_e :: real where
  "sigma_e = 0.4"

definition theta_G :: real where
  "theta_G = 0.205"

definition shape_noise :: "real \<Rightarrow> py_error + real option" where
  "shape_noise n_galaxy =
     (if theta_G\<^sup>2 * n_galaxy = 0 then Inl ZeroDivisionError
      else let variance = (sigma_e\<^sup>2 / 2) / (theta_G\<^sup>2 * n_galaxy)
           in Inr (if variance < 0 then None else Some (sqrt variance)))"

subsection \<open>numpy arrays, FITS files and paths\<close>

text \<open>
  A numpy array is its shape and its elements in row-major order, as numpy stores it.
  Only the operations the script uses are modelled, with the exceptions numpy raises.
\<close>

record ndarray =
  shape :: "nat list"
  data :: "real list"

text \<open>\<^verbatim>\<open>a[i]\<close> for a literal index \<open>i \<ge> 0\<close>: plane \<open>i\<close> along the first axis.\<close>

definition getitem :: "ndarray \<Rightarrow> nat \<Rightarrow> py_error + ndarray" where
  "getitem a i =
     (case shape a of
        [] \<Rightarrow> Inl IndexError
      | n # sh \<Rightarrow>
          if i < n
          then Inr \<lparr>shape = sh, data = take (prod_list sh) (drop (i * prod_list sh) (data a))\<rparr>
          else Inl IndexError)"

text \<open>
  The number of planes along the first axis, plane \<open>i\<close> and the first \<open>n\<close> planes
  (\<^verbatim>\<open>a[:n]\<close>), to state what an index read returns.
\<close>

definition n_planes :: "ndarray \<Rightarrow> nat" where
  "n_planes a = (case shape a of [] \<Rightarrow> 0 | n # _ \<Rightarrow> n)"

definition plane :: "ndarray \<Rightarrow> nat \<Rightarrow> ndarray" where
  "plane a i = \<lparr>shape = tl (shape a),
       data = take (prod_list (tl (shape a))) (drop (i * prod_list (tl (shape a))) (data a))\<rparr>"

definition take_planes :: "nat \<Rightarrow> ndarray \<Rightarrow> ndarray" where
  "take_planes n a =
     (case shape a of [] \<Rightarrow> a
      | m # sh \<Rightarrow> \<lparr>shape = min n m # sh, data = take (n * prod_list sh) (data a)\<rparr>)"

text \<open>Unary minus, \<^verbatim>\<open>- a\<close>.\<close>

definition neg :: "ndarray \<Rightarrow> ndarray" where
  "neg a = \<lparr>shape = shape a, data = map uminus (data a)\<rparr>"

text \<open>\<^verbatim>\<open>np.expand_dims(a, axis=0)\<close>.\<close>

definition expand_dims :: "ndarray \<Rightarrow> ndarray" where
  "expand_dims a = \<lparr>shape = 1 # shape a, data = data a\<rparr>"

text \<open>
  \<^verbatim>\<open>np.concatenate(arrays)\<close> along axis 0: \<^verbatim>\<open>ValueError\<close> for an empty list, for a
  zero-dimensional array and when the shapes differ anywhere but on axis 0.
\<close>

definition concatenate :: "ndarray list \<Rightarrow> py_error + ndarray" where
  "concatenate arrs =
     (case arrs of
        [] \<Rightarrow> Inl ValueError
      | a # _ \<Rightarrow>
          if list_all (\<lambda>b. shape b \<noteq> [] \<and> tl (shape b) = tl (shape a)) arrs
          then Inr \<lparr>shape = sum_list (map (\<lambda>b. hd (shape b)) arrs) # tl (shape a),
                    data = concat (map data arrs)\<rparr>
          else Inl ValueError)"

text \<open>
  \<^verbatim>\<open>np.float32(c)\<close> casts every element; the rounding of a value to single precision is
  the parameter \<open>f32\<close>.
\<close>

definition float32 :: "(real \<Rightarrow> real) \<Rightarrow> ndarray \<Rightarrow> ndarray" where
  "float32 f32 c = \<lparr>shape = shape c, data = map f32 (data c)\<rparr>"

text \<open>
  The files the script sees: a map from a path to the data array of the primary HDU.
  \<^verbatim>\<open>fits.open\<close> raises on a missing path; \<^verbatim>\<open>fits.writeto(..., overwrite=True)\<close> replaces
  whatever the path held. The existence of the destination directory is outside the model.
\<close>

type_synonym files = "string \<rightharpoonup> ndarray"

definition fits_open :: "files \<Rightarrow> string \<Rightarrow> py_error + ndarray" where
  "fits_open fs path = (case fs path of None \<Rightarrow> Inl FileNotFoundError | Some d \<Rightarrow> Inr d)"

definition fits_writeto :: "string \<Rightarrow> ndarray \<Rightarrow> files \<Rightarrow> files" where
  "fits_writeto path d fs = fs(path \<mapsto> d)"

text \<open>\<^verbatim>\<open>os.path.join(a, b)\<close> on POSIX.\<close>

definition path_join :: "string \<Rightarrow> string \<Rightarrow> string" where
  "path_join a b =
     (if b \<noteq> [] \<and> hd b = CHR ''/'' then b
      else if a = [] \<or> last a = CHR ''/'' then a @ b
      else a @ ''/'' @ b)"

subsection \<open>save_cube\<close>

definition save_cube ::
  "(real \<Rightarrow> real) \<Rightarrow> ndarray \<Rightarrow> ndarray \<Rightarrow> ndarray \<Rightarrow> ndarray \<Rightarrow> ndarray \<Rightarrow> ndarray
     \<Rightarrow> string \<Rightarrow> string \<Rightarrow> files \<Rightarrow> py_error + files" where
  "save_cube f32 true ml ks wiener sparse mcalens save_dir save_name fs =
     (let true1 = expand_dims true;
          ml1 = expand_dims ml;
          ks1 = expand_dims ks;
          wiener1 = expand_dims wiener;
          sparse1 = expand_dims sparse;
          mcalens1 = expand_dims mcalens
      in bindE (concatenate [true1, ml1, ks1, wiener1, sparse1, mcalens1])
           (\<lambda>c. Inr (fits_writeto (path_join save_dir save_name) (float32 f32 c) fs)))"

subsection \<open>make_cube\<close>

record args =
  dir :: string
  save_dir :: string
  cpu :: int
  n_galaxy :: int
  have_mcalens :: bool
  bare :: bool

text \<open>
  The local variables bound by the plane reads of lines 38 to 55. A local that the
  taken branch does not assign is \<open>None\<close>; reading it raises \<^verbatim>\<open>UnboundLocalError\<close>.
\<close>

record locals =
  shear1 :: ndarray
  shear2 :: ndarray
  pred :: ndarray
  true :: ndarray
  res :: ndarray
  ks :: "ndarray option"
  wiener :: "ndarray option"
  mcalens :: "ndarray option"

definition local_var :: "string \<Rightarrow> 'a option \<Rightarrow> py_error + 'a" where
  "local_var name v = (case v of None \<Rightarrow> Inl (UnboundLocalError name) | Some x \<Rightarrow> Inr x)"

definition load_planes :: "args \<Rightarrow> ndarray \<Rightarrow> py_error + locals" where
  "load_planes a cube =
     bindE (getitem cube 0) (\<lambda>s1.
     bindE (getitem cube 1) (\<lambda>s2.
     if bare a = True then
       bindE (getitem cube 2) (\<lambda>p.
       bindE (getitem cube 3) (\<lambda>t.
       bindE (getitem cube 4) (\<lambda>r.
       Inr \<lparr>shear1 = s1, shear2 = s2, pred = p, true = t, res = r,
            ks = None, wiener = None, mcalens = None\<rparr>)))
     else
       bindE (getitem cube 2) (\<lambda>k.
       bindE (getitem cube 3) (\<lambda>w.
       if have_mcalens a = True then
         bindE (getitem cube 4) (\<lambda>m.
         bindE (getitem cube 5) (\<lambda>p.
         bindE (getitem cube 6) (\<lambda>t.
         bindE (getitem cube 7) (\<lambda>r.
         Inr \<lparr>shear1 = s1, shear2 = s2, pred = p, true = t, res = r,
              ks = Some k, wiener = Some w, mcalens = Some m\<rparr>))))
       else
         bindE (getitem cube 4) (\<lambda>p.
         bindE (getitem cube 5) (\<lambda>t.
         bindE (getitem cube 6) (\<lambda>r.
         Inr \<lparr>shear1 = s1, shear2 = s2, pred = p, true = t, res = r,
              ks = Some k, wiener = Some w, mcalens = None\<rparr>)))))))"

text \<open>
  \<^verbatim>\<open>np.ones((512, 512)) * noise_std**2\<close> is a constant array: it is kept as its shape
  and its one value (\<open>None\<close> when the standard deviation is nan).
\<close>

record const_array =
  c_shape :: "nat list"
  c_value :: "real option"

record shear_data =
  g1 :: ndarray
  g2 :: ndarray
  Ncov :: const_array
  nx :: nat
  ny :: nat

text \<open>Lines 58 to 64: the shear object handed to the mass-mapping library.\<close>

definition init_shear :: "args \<Rightarrow> locals \<Rightarrow> py_error + shear_data" where
  "init_shear a l =
     bindE (shape_noise (real_of_int (n_galaxy a))) (\<lambda>noise_std.
     Inr \<lparr>g1 = neg (shear1 l), g2 = shear2 l,
          Ncov = \<lparr>c_shape = [512, 512], c_value = map_option (\<lambda>s. s\<^sup>2) noise_std\<rparr>,
          nx = 512, ny = 512\<rparr>)"

text \<open>
  The collaborators outside the repository: whether \<^verbatim>\<open>import pysparse\<close> succeeded, the
  four methods of \<^verbatim>\<open>massmap2d\<close> the script calls (each may raise), and the rounding to
  single precision. Their arguments are the ones the script passes, in its order; the
  wavelet objects of \<^verbatim>\<open>pass_class\<close> are constants of the script and are left out.
  \<^verbatim>\<open>M_sparse_recons D UseNoiseRea niter Nsigma ThresCoarse Inpaint\<close>,
  \<^verbatim>\<open>M_sparse_wiener_filtering D PowSpecSignal niter Nsigma Inpaint Bmode\<close>.
\<close>

record env =
  pysparse_found :: bool
  M_g2k :: "ndarray \<Rightarrow> ndarray \<Rightarrow> py_error + ndarray"
  M_wiener :: "ndarray \<Rightarrow> ndarray \<Rightarrow> ndarray \<Rightarrow> ndarray \<Rightarrow> py_error + ndarray"
  M_sparse_recons :: "shear_data \<Rightarrow> bool \<Rightarrow> nat \<Rightarrow> real \<Rightarrow> bool \<Rightarrow> bool \<Rightarrow> py_error + ndarray"
  M_sparse_wiener_filtering ::
    "shear_data \<Rightarrow> ndarray \<Rightarrow> nat \<Rightarrow> real \<Rightarrow> bool \<Rightarrow> bool \<Rightarrow> py_error + ndarray"
  np_float32 :: "real \<Rightarrow> real"

text \<open>Lines 74 to 82: the direct inversion and the Wiener filtering, run when \<^verbatim>\<open>bare\<close> is set.\<close>

definition derive_classical ::
  "env \<Rightarrow> args \<Rightarrow> shear_data \<Rightarrow> ndarray \<Rightarrow> ndarray \<Rightarrow> locals \<Rightarrow> py_error + locals" where
  "derive_classical e a D p_signal p_noise l =
     (if bare a = True then
        bindE (M_g2k e (g1 D) (g2 D)) (\<lambda>k.
        bindE (M_wiener e (g1 D) (g2 D) p_signal p_noise) (\<lambda>w.
        Inr (l\<lparr>ks := Some k, wiener := Some w\<rparr>)))
      else Inr l)"

text \<open>Lines 93 to 102: the combined estimate, run when \<^verbatim>\<open>have_mcalens\<close> is not set.\<close>

definition derive_mcalens ::
  "env \<Rightarrow> args \<Rightarrow> shear_data \<Rightarrow> ndarray \<Rightarrow> locals \<Rightarrow> py_error + locals" where
  "derive_mcalens e a D p_signal l =
     (if have_mcalens a = False then
        bindE (M_sparse_wiener_filtering e D p_signal 12 5 False False) (\<lambda>m.
        Inr (l\<lparr>mcalens := Some m\<rparr>))
      else Inr l)"

definition make_cube :: "env \<Rightarrow> args \<Rightarrow> string \<Rightarrow> files \<Rightarrow> py_error + files" where
  "make_cube e a fname fs =
     bindE (fits_open fs (path_join (dir a) fname)) (\<lambda>cube.
     bindE (load_planes a cube) (\<lambda>l.
     bindE (init_shear a l) (\<lambda>D.
     bindE (if pysparse_found e then Inr () else Inl (NameError ''pysparse'')) (\<lambda>_.
     bindE (fits_open fs ''./signal_power_spectrum.fits'') (\<lambda>p_signal.
     bindE (fits_open fs ''./noise_power_spectrum_g50.fits'') (\<lambda>p_noise.
     bindE (derive_classical e a D p_signal p_noise l) (\<lambda>l.
     bindE (M_sparse_recons e D False 12 5 False False) (\<lambda>sparse.
     bindE (derive_mcalens e a D p_signal l) (\<lambda>l.
     bindE (local_var ''ks'' (ks l)) (\<lambda>ks_v.
     bindE (local_var ''wiener'' (wiener l)) (\<lambda>wiener_v.
     bindE (local_var ''mcalens'' (mcalens l)) (\<lambda>mcalens_v.
     save_cube (np_float32 e) (true l) (pred l) ks_v wiener_v sparse mcalens_v
       (save_dir a) fname fs))))))))))))"

text \<open>The file store a task leaves behind: the one it was given when it raised.\<close>

definition files_after :: "files \<Rightarrow> py_error + files \<Rightarrow> files" where
  "files_after fs r = (case r of Inl _ \<Rightarrow> fs | Inr fs' \<Rightarrow> fs')"

subsection \<open>Example inputs\<close>

text \<open>
  Concrete collaborators, arguments and files on which the model is run: the library
  stand-ins scale the shear they are given, so that their results are told apart from every
  plane of the input cube; cubes have planes of one pixel.
\<close>

definition scale :: "real \<Rightarrow> ndarray \<Rightarrow> ndarray" where
  "scale c a = \<lparr>shape = shape a, data = map (\<lambda>x. c * x) (data a)\<rparr>"

definition ex_env :: env where
  "ex_env = \<lparr>pysparse_found = True,
             M_g2k = (\<lambda>a b. Inr (scale 10 a)),
             M_wiener = (\<lambda>a b ps pn. Inr (scale 20 b)),
             M_sparse_recons = (\<lambda>D u n s t i. Inr (scale 30 (g1 D))),
             M_sparse_wiener_filtering = (\<lambda>D ps n s i b. Inr (scale 40 (g2 D))),
             np_float32 = (\<lambda>x. x)\<rparr>"

definition ex_args :: "bool \<Rightarrow> bool \<Rightarrow> args" where
  "ex_args b m = \<lparr>dir = ''in'', save_dir = ''out'', cpu = 20, n_galaxy = 50,
                   have_mcalens = m, bare = b\<rparr>"

definition ex_cube :: "real list \<Rightarrow> ndarray" where
  "ex_cube xs = \<lparr>shape = [length xs, 1, 1], data = xs\<rparr>"

definition ex_spectrum :: ndarray where
  "ex_spectrum = \<lparr>shape = [1], data = [1]\<rparr>"

definition ex_files :: "real list \<Rightarrow> files" where
  "ex_files n = [''in/map.fits'' \<mapsto> ex_cube n,
                 ''./signal_power_spectrum.fits'' \<mapsto> ex_spectrum,
                 ''./noise_power_spectrum_g50.fits'' \<mapsto> ex_spectrum]"

definition ex_env_no_classical :: env where
  "ex_env_no_classical =
     ex_env\<lparr>M_g2k := (\<lambda>a b. Inl RuntimeError), M_wiener := (\<lambda>a b ps pn. Inl RuntimeError)\<rparr>"

definition ex_plane :: "real \<Rightarrow> ndarray" where
  "ex_plane x = \<lparr>shape = [1, 2], data = [x, x + 1]\<rparr>"

section \<open>miu2net/main/model.py\<close>

text \<open>
  The forward passes are written once, for any representation \<open>'t\<close> of a tensor. A module
  is what its call does: a function from the input tensor to the output tensor or to the
  exception raised. The functional operations the forward passes call directly are the
  fields of \<open>functional\<close>: \<^verbatim>\<open>F.avg_pool2d(x, kernel_size=2, stride=2, ceil_mode=True)\<close>,
  \<^verbatim>\<open>F.interpolate(x, size=..., mode='bilinear', align_corners=False)\<close>,
  \<^verbatim>\<open>torch.cat(..., dim=1)\<close>, \<^verbatim>\<open>+\<close>, torchvision's \<^verbatim>\<open>resize\<close>, \<^verbatim>\<open>x.shape\<close> and the ReLU.
\<close>

type_synonym 't module = "'t \<Rightarrow> py_error + 't"

record 't functional =
  F_relu :: "'t \<Rightarrow> 't"
  F_avg_pool2d :: "'t module"
  F_interpolate :: "'t \<Rightarrow> nat list \<Rightarrow> py_error + 't"
  torch_cat :: "'t list \<Rightarrow> py_error + 't"
  tensor_add :: "'t \<Rightarrow> 't \<Rightarrow> py_error + 't"
  tv_resize :: "'t \<Rightarrow> nat list \<Rightarrow> py_error + 't"
  tensor_shape :: "'t \<Rightarrow> nat list"

text \<open>
  The three convolution layers (lines 8 to 41), each with its convolution and its batch
  normalisation; the down and up variants carry their flag. Calling a layer with the wrong
  number of tensors is Python's \<^verbatim>\<open>TypeError\<close>.
\<close>

datatype 't layer =
    ConvBNReLU "'t module" "'t module"
  | DownConvBNReLU "'t module" "'t module" bool
  | UpConvBNReLU "'t module" "'t module" bool

fun layer_forward :: "'t functional \<Rightarrow> 't layer \<Rightarrow> 't module" where
  "layer_forward F (ConvBNReLU conv bn) x =
     bindE (conv x) (\<lambda>y. bindE (bn y) (\<lambda>z. Inr (F_relu F z)))"
| "layer_forward F (DownConvBNReLU conv bn down_flag) x =
     bindE (if down_flag then F_avg_pool2d F x else Inr x) (\<lambda>x.
     bindE (conv x) (\<lambda>y. bindE (bn y) (\<lambda>z. Inr (F_relu F z))))"
| "layer_forward F (UpConvBNReLU conv bn up_flag) x = Inl TypeError"

fun layer_forward2 :: "'t functional \<Rightarrow> 't layer \<Rightarrow> 't \<Rightarrow> 't \<Rightarrow> py_error + 't" where
  "layer_forward2 F (UpConvBNReLU conv bn up_flag) x1 x2 =
     bindE (if up_flag then F_interpolate F x1 (drop 2 (tensor_shape F x2)) else Inr x1) (\<lambda>x1.
     bindE (torch_cat F [x1, x2]) (\<lambda>c.
     bindE (conv c) (\<lambda>y. bindE (bn y) (\<lambda>z. Inr (F_relu F z)))))"
| "layer_forward2 F _ x1 x2 = Inl TypeError"

text \<open>\<^verbatim>\<open>list.pop()\<close>, and the two loops of the residual blocks (lines 65 to 73, 95 to 103).\<close>

definition pop :: "'a list \<Rightarrow> py_error + ('a \<times> 'a list)" where
  "pop xs = (if xs = [] then Inl IndexError else Inr (last xs, butlast xs))"

fun encode_loop :: "('t module) list \<Rightarrow> 't \<Rightarrow> 't list \<Rightarrow> py_error + 't list" where
  "encode_loop [] x encode_outputs = Inr encode_outputs"
| "encode_loop (m # ms) x encode_outputs =
     bindE (m x) (\<lambda>x. encode_loop ms x (encode_outputs @ [x]))"

fun decode_loop ::
  "('t \<Rightarrow> 't \<Rightarrow> py_error + 't) list \<Rightarrow> 't \<Rightarrow> 't list \<Rightarrow> py_error + 't" where
  "decode_loop [] x encode_outputs = Inr x"
| "decode_loop (m # ms) x encode_outputs =
     bindE (pop encode_outputs) (\<lambda>(x2, encode_outputs).
     bindE (m x x2) (\<lambda>x. decode_loop ms x encode_outputs))"

text \<open>
  \<^verbatim>\<open>RSU.forward\<close> and \<^verbatim>\<open>RSU4F.forward\<close>. The part between the input convolution and the final
  addition (the encoder chain and the decoder chain) is \<open>RSU_decode\<close>, \<open>RSU4F_decode\<close>.
\<close>

definition RSU_decode ::
  "'t functional \<Rightarrow> 't layer list \<Rightarrow> 't layer list \<Rightarrow> 't module" where
  "RSU_decode F encode_modules decode_modules x_in =
     bindE (encode_loop (map (layer_forward F) encode_modules) x_in []) (\<lambda>encode_outputs.
     bindE (pop encode_outputs) (\<lambda>(x, encode_outputs).
     decode_loop (map (layer_forward2 F) decode_modules) x encode_outputs))"

definition RSU_forward ::
  "'t functional \<Rightarrow> 't layer \<Rightarrow> 't layer list \<Rightarrow> 't layer list \<Rightarrow> 't module" where
  "RSU_forward F conv_in encode_modules decode_modules x =
     bindE (layer_forward F conv_in x) (\<lambda>x_in.
     bindE (RSU_decode F encode_modules decode_modules x_in) (\<lambda>x.
     tensor_add F x x_in))"

definition RSU4F_decode ::
  "'t functional \<Rightarrow> 't layer list \<Rightarrow> 't layer list \<Rightarrow> 't module" where
  "RSU4F_decode F encode_modules decode_modules x_in =
     bindE (encode_loop (map (layer_forward F) encode_modules) x_in []) (\<lambda>encode_outputs.
     bindE (pop encode_outputs) (\<lambda>(x, encode_outputs).
     decode_loop (map (\<lambda>m x x2. bindE (torch_cat F [x, x2]) (layer_forward F m)) decode_modules)
       x encode_outputs))"

definition RSU4F_forward ::
  "'t functional \<Rightarrow> 't layer \<Rightarrow> 't layer list \<Rightarrow> 't layer list \<Rightarrow> 't module" where
  "RSU4F_forward F conv_in encode_modules decode_modules x =
     bindE (layer_forward F conv_in x) (\<lambda>x_in.
     bindE (RSU4F_decode F encode_modules decode_modules x_in) (\<lambda>x.
     tensor_add F x x_in))"

datatype 't block =
    RSU "'t layer" "'t layer list" "'t layer list"
  | RSU4F "'t layer" "'t layer list" "'t layer list"

fun block_forward :: "'t functional \<Rightarrow> 't block \<Rightarrow> 't module" where
  "block_forward F (RSU conv_in encode_modules decode_modules) x =
     RSU_forward F conv_in encode_modules decode_modules x"
| "block_forward F (RSU4F conv_in encode_modules decode_modules) x =
     RSU4F_forward F conv_in encode_modules decode_modules x"

text \<open>The input convolution of a block, and its part between that and the addition.\<close>

fun block_conv_in :: "'t block \<Rightarrow> 't layer" where
  "block_conv_in (RSU conv_in encode_modules decode_modules) = conv_in"
| "block_conv_in (RSU4F conv_in encode_modules decode_modules) = conv_in"

fun block_decode :: "'t functional \<Rightarrow> 't block \<Rightarrow> 't module" where
  "block_decode F (RSU conv_in encode_modules decode_modules) =
     RSU_decode F encode_modules decode_modules"
| "block_decode F (RSU4F conv_in encode_modules decode_modules) =
     RSU4F_decode F encode_modules decode_modules"

text \<open>
  The block as the specification words it, to compare with: the original block input \<open>x\<close>
  is what is added to the decoded feature.
\<close>

definition block_forward_spec :: "'t functional \<Rightarrow> 't block \<Rightarrow> 't module" where
  "block_forward_spec F blk x =
     bindE (layer_forward F (block_conv_in blk) x) (\<lambda>x_in.
     bindE (block_decode F blk x_in) (\<lambda>d.
     tensor_add F d x))"

text \<open>
  \<^verbatim>\<open>U2Net.forward\<close> (lines 146 to 193): the encoder loop, the decoder loop, then the side
  outputs fused by the 1x1 convolution, or the Laplacian pyramid and its reconstruction.
  A mode that is neither falls through and returns nothing; \<^verbatim>\<open>__init__\<close> asserts that this
  does not happen.
\<close>

record 't U2Net =
  mode :: string
  encode_num :: nat
  encode_modules :: "'t block list"
  decode_modules :: "'t block list"
  side_modules :: "'t module list"
  out_conv :: "'t module"

fun U2Net_encode ::
  "'t functional \<Rightarrow> nat \<Rightarrow> 't block list \<Rightarrow> nat \<Rightarrow> 't \<Rightarrow> 't list \<Rightarrow> py_error + 't list" where
  "U2Net_encode F n [] i x encode_outputs = Inr encode_outputs"
| "U2Net_encode F n (m # ms) i x encode_outputs =
     bindE (block_forward F m x) (\<lambda>x.
     bindE (if int i \<noteq> int n - 1 then F_avg_pool2d F x else Inr x) (\<lambda>x'.
     U2Net_encode F n ms (i + 1) x' (encode_outputs @ [x])))"

fun U2Net_decode ::
  "'t functional \<Rightarrow> 't block list \<Rightarrow> 't \<Rightarrow> 't list \<Rightarrow> 't list \<Rightarrow> py_error + 't list" where
  "U2Net_decode F [] x encode_outputs decode_outputs = Inr decode_outputs"
| "U2Net_decode F (m # ms) x encode_outputs decode_outputs =
     bindE (pop encode_outputs) (\<lambda>(x2, encode_outputs).
     bindE (F_interpolate F x (drop 2 (tensor_shape F x2))) (\<lambda>x.
     bindE (torch_cat F [x, x2]) (\<lambda>c.
     bindE (block_forward F m c) (\<lambda>x.
     U2Net_decode F ms x encode_outputs (x # decode_outputs)))))"

fun U2Net_sides ::
  "'t functional \<Rightarrow> nat \<Rightarrow> nat \<Rightarrow> 't module list \<Rightarrow> 't list \<Rightarrow> 't list \<Rightarrow> py_error + 't list" where
  "U2Net_sides F h w [] decode_outputs side_outputs = Inr side_outputs"
| "U2Net_sides F h w (m # ms) decode_outputs side_outputs =
     bindE (pop decode_outputs) (\<lambda>(x, decode_outputs).
     bindE (m x) (\<lambda>y.
     bindE (F_interpolate F y [h, w]) (\<lambda>x.
     U2Net_sides F h w ms decode_outputs (x # side_outputs))))"

fun U2Net_pyramid ::
  "'t functional \<Rightarrow> nat \<Rightarrow> nat \<Rightarrow> nat \<Rightarrow> 't module list \<Rightarrow> 't list \<Rightarrow> 't list
     \<Rightarrow> py_error + 't list" where
  "U2Net_pyramid F h w i [] decode_outputs lap_pyramid = Inr lap_pyramid"
| "U2Net_pyramid F h w i (m # ms) decode_outputs lap_pyramid =
     bindE (pop decode_outputs) (\<lambda>(x, decode_outputs).
     bindE (if i \<le> 5 then Inr (h div 2 ^ (5 - i), w div 2 ^ (5 - i)) else Inl TypeError)
       (\<lambda>(pyr_h, pyr_w).
     bindE (m x) (\<lambda>y.
     bindE (F_interpolate F y [pyr_h, pyr_w]) (\<lambda>x.
     U2Net_pyramid F h w (i + 1) ms decode_outputs (x # lap_pyramid)))))"

fun U2Net_reconstruct :: "'t functional \<Rightarrow> 't list \<Rightarrow> 't \<Rightarrow> py_error + 't" where
  "U2Net_reconstruct F [] x = Inr x"
| "U2Net_reconstruct F (laplacian # ls) x =
     bindE (tv_resize F x (drop (length (tensor_shape F laplacian) - 2) (tensor_shape F laplacian)))
       (\<lambda>upsampled.
     bindE (tensor_add F upsampled laplacian) (\<lambda>x.
     U2Net_reconstruct F ls x))"

definition U2Net_forward :: "'t functional \<Rightarrow> 't U2Net \<Rightarrow> 't \<Rightarrow> py_error + 't list" where
  "U2Net_forward F net x =
     (case tensor_shape F x of
        [_, _, h, w] \<Rightarrow>
          bindE (U2Net_encode F (encode_num net) (encode_modules net) 0 x []) (\<lambda>encode_outputs.
          bindE (pop encode_outputs) (\<lambda>(x, encode_outputs).
          bindE (U2Net_decode F (decode_modules net) x encode_outputs [x]) (\<lambda>decode_outputs.
          if mode net = ''1x1conv'' then
            bindE (U2Net_sides F h w (side_modules net) decode_outputs []) (\<lambda>side_outputs.
            bindE (torch_cat F side_outputs) (\<lambda>c.
            bindE (out_conv net c) (\<lambda>x.
            Inr (x # side_outputs))))
          else if mode net = ''laplacian_pyr'' then
            bindE (U2Net_pyramid F h w 0 (side_modules net) decode_outputs []) (\<lambda>lap_pyramid.
            bindE (pop lap_pyramid) (\<lambda>(x, rest).
            bindE (U2Net_reconstruct F (rev rest) x) (\<lambda>x.
            Inr (x # lap_pyramid))))
          else Inr [])))
      | _ \<Rightarrow> Inl ValueError)"


subsection \<open>Tensor sizes\<close>

text \<open>
  The size semantics of the torch operations: a tensor is its size
  \<open>[batch, channels, height, width]\<close>, and every operation returns the size of its result
  or raises where torch raises.
  \<^item> \<open>Conv2d\<close> (stride 1): the channels must be \<open>in_channels\<close> and the padded input at
    least as large as the dilated kernel.
  \<^item> \<open>BatchNorm2d\<close>: in training mode \<^verbatim>\<open>torch.nn.functional.batch_norm\<close> raises
    \<^verbatim>\<open>ValueError\<close> ("Expected more than 1 value per channel when training") when
    batch * height * width is 1; the channels must be \<open>num_features\<close>. \<open>training\<close> is
    \<^verbatim>\<open>nn.Module.training\<close> at the call: true after construction, false after
    \<^verbatim>\<open>.eval()\<close>.
  \<^item> \<open>avg_pool2d\<close> (kernel 2, stride 2): the output extent is
    \<open>(h - 1) div 2 + 1\<close> with \<^verbatim>\<open>ceil_mode\<close> and \<open>(h - 2) div 2 + 1\<close> without; an
    output extent of 0 raises.
  \<^item> \<open>interpolate\<close>, \<open>Upsample\<close> and \<^verbatim>\<open>resize\<close>: input and output extents must be positive.
  \<^item> \<open>cat\<close> along the channels: all sizes agree outside the channels.
  \<^item> \<open>add\<close>: broadcasting of two 4-D sizes.
\<close>

definition Conv2d :: "nat \<Rightarrow> nat \<Rightarrow> nat \<Rightarrow> nat \<Rightarrow> nat \<Rightarrow> nat list module" where
  "Conv2d in_channels out_channels kernel_size padding dilation s =
     (case s of
        [b, c, h, w] \<Rightarrow>
          if c = in_channels
             \<and> dilation * (kernel_size - 1) + 1 \<le> h + 2 * padding
             \<and> dilation * (kernel_size - 1) + 1 \<le> w + 2 * padding
          then Inr [b, out_channels, h + 2 * padding - dilation * (kernel_size - 1),
                    w + 2 * padding - dilation * (kernel_size - 1)]
          else Inl RuntimeError
      | _ \<Rightarrow> Inl RuntimeError)"

definition BatchNorm2d :: "bool \<Rightarrow> nat \<Rightarrow> nat list module" where
  "BatchNorm2d training num_features s =
     (case s of
        [b, c, h, w] \<Rightarrow>
          if training \<and> b * h * w = 1 then Inl ValueError
          else if c \<noteq> num_features then Inl RuntimeError
          else Inr s
      | _ \<Rightarrow> Inl ValueError)"

definition avg_pool2d :: "bool \<Rightarrow> nat list module" where
  "avg_pool2d ceil_mode s =
     (case s of
        [b, c, h, w] \<Rightarrow>
          if ceil_mode then
            if h = 0 \<or> w = 0 then Inl RuntimeError
            else Inr [b, c, (h - 1) div 2 + 1, (w - 1) div 2 + 1]
          else
            if h < 2 \<or> w < 2 then Inl RuntimeError
            else Inr [b, c, (h - 2) div 2 + 1, (w - 2) div 2 + 1]
      | _ \<Rightarrow> Inl RuntimeError)"

definition interpolate :: "nat list \<Rightarrow> nat list \<Rightarrow> py_error + nat list" where
  "interpolate s sz =
     (case s of
        [b, c, h, w] \<Rightarrow>
          if length sz = 2 \<and> 0 < h \<and> 0 < w \<and> list_all (\<lambda>n. 0 < n) sz
          then Inr ([b, c] @ sz) else Inl RuntimeError
      | _ \<Rightarrow> Inl RuntimeError)"

definition Upsample :: "nat \<Rightarrow> nat list module" where
  "Upsample scale_factor s =
     (case s of
        [b, c, h, w] \<Rightarrow> interpolate s [h * scale_factor, w * scale_factor]
      | _ \<Rightarrow> Inl RuntimeError)"

definition cat :: "nat list list \<Rightarrow> py_error + nat list" where
  "cat tensors =
     (case tensors of
        [] \<Rightarrow> Inl RuntimeError
      | [b, c, h, w] # _ \<Rightarrow>
          if list_all (\<lambda>s. length s = 4 \<and> s ! 0 = b \<and> s ! 2 = h \<and> s ! 3 = w) tensors
          then Inr [b, sum_list (map (\<lambda>s. s ! 1) tensors), h, w]
          else Inl RuntimeError
      | _ \<Rightarrow> Inl RuntimeError)"

definition broadcast :: "nat \<Rightarrow> nat \<Rightarrow> nat option" where
  "broadcast m n = (if m = n then Some m else if m = 1 then Some n else if n = 1 then Some m else None)"

definition add :: "nat list \<Rightarrow> nat list \<Rightarrow> py_error + nat list" where
  "add s1 s2 =
     (if length s1 = 4 \<and> length s2 = 4 \<and> list_all (\<lambda>(m, n). broadcast m n \<noteq> None) (zip s1 s2)
      then Inr (map (\<lambda>(m, n). the (broadcast m n)) (zip s1 s2))
      else Inl RuntimeError)"

definition F_shape :: "nat list functional" where
  "F_shape = \<lparr>F_relu = (\<lambda>s. s), F_avg_pool2d = avg_pool2d True, F_interpolate = interpolate,
               torch_cat = cat, tensor_add = add, tv_resize = interpolate,
               tensor_shape = (\<lambda>s. s)\<rparr>"

subsection \<open>Construction\<close>

text \<open>
  The constructors are written once too, for any representation of tensors: \<open>nn\<close> gives
  the modules of \<^verbatim>\<open>torch.nn\<close> that the constructors create. \<open>nn_Conv2d\<close> (input channels,
  output channels, kernel size, padding, dilation) and \<open>nn_BatchNorm2d\<close> are layers with
  their freshly initialised parameters; \<open>nn_Conv2d_1x1\<close> is a convolution of kernel size 1
  whose weight and bias are the given ones (weight \<open>weight ! oc ! i\<close> from input channel
  \<open>i\<close> to output channel \<open>oc\<close>), as \<^verbatim>\<open>out_conv\<close> is after lines 138 to 144: the weight of
  size \<open>[1, 6, 1, 1]\<close> filled with 1/6 and the bias 0, whatever \<^verbatim>\<open>encode_num * out_ch\<close> is.
\<close>

record 't nn =
  nn_Conv2d :: "nat \<Rightarrow> nat \<Rightarrow> nat \<Rightarrow> nat \<Rightarrow> nat \<Rightarrow> 't module"
  nn_BatchNorm2d :: "nat \<Rightarrow> 't module"
  nn_Conv2d_1x1 :: "real list list \<Rightarrow> real list \<Rightarrow> 't module"

definition init_1x1_w :: "real list list" where
  "init_1x1_w = [replicate 6 (1 / 6)]"

definition init_1x1_b :: "real list" where
  "init_1x1_b = [0]"


definition ConvBNReLU_init :: "'t nn \<Rightarrow> nat \<Rightarrow> nat \<Rightarrow> nat \<Rightarrow> nat \<Rightarrow> 't layer" where
  "ConvBNReLU_init nn in_ch out_ch kernel_size dilation =
     (let padding = (if dilation = 1 then kernel_size div 2 else dilation)
      in ConvBNReLU (nn_Conv2d nn in_ch out_ch kernel_size padding dilation)
           (nn_BatchNorm2d nn out_ch))"

definition DownConvBNReLU_init ::
  "'t nn \<Rightarrow> nat \<Rightarrow> nat \<Rightarrow> nat \<Rightarrow> nat \<Rightarrow> bool \<Rightarrow> 't layer" where
  "DownConvBNReLU_init nn in_ch out_ch kernel_size dilation flag =
     (let padding = (if dilation = 1 then kernel_size div 2 else dilation)
      in DownConvBNReLU (nn_Conv2d nn in_ch out_ch kernel_size padding dilation)
           (nn_BatchNorm2d nn out_ch) flag)"

definition UpConvBNReLU_init ::
  "'t nn \<Rightarrow> nat \<Rightarrow> nat \<Rightarrow> nat \<Rightarrow> nat \<Rightarrow> bool \<Rightarrow> 't layer" where
  "UpConvBNReLU_init nn in_ch out_ch kernel_size dilation flag =
     (let padding = (if dilation = 1 then kernel_size div 2 else dilation)
      in UpConvBNReLU (nn_Conv2d nn in_ch out_ch kernel_size padding dilation)
           (nn_BatchNorm2d nn out_ch) flag)"

definition RSU_modules :: "'t nn \<Rightarrow> nat \<Rightarrow> nat \<Rightarrow> nat \<Rightarrow> nat \<Rightarrow> 't block" where
  "RSU_modules nn height in_ch mid_ch out_ch =
     (let conv_in = ConvBNReLU_init nn in_ch out_ch 3 1;
          encode_list =
            [DownConvBNReLU_init nn out_ch mid_ch 3 1 False]
            @ map (\<lambda>i. DownConvBNReLU_init nn mid_ch mid_ch 3 1 True) [0..<height - 2]
            @ [ConvBNReLU_init nn mid_ch mid_ch 3 2];
          decode_list =
            [UpConvBNReLU_init nn (mid_ch * 2) mid_ch 3 1 False]
            @ map (\<lambda>i. UpConvBNReLU_init nn (mid_ch * 2)
                           (if int i < int height - 3 then mid_ch else out_ch) 3 1 True)
                [0..<height - 2]
      in RSU conv_in encode_list decode_list)"

definition RSU_init :: "'t nn \<Rightarrow> nat \<Rightarrow> nat \<Rightarrow> nat \<Rightarrow> nat \<Rightarrow> py_error + 't block" where
  "RSU_init nn height in_ch mid_ch out_ch =
     (if \<not> 2 \<le> height then Inl AssertionError
      else Inr (RSU_modules nn height in_ch mid_ch out_ch))"

definition RSU4F_init :: "'t nn \<Rightarrow> nat \<Rightarrow> nat \<Rightarrow> nat \<Rightarrow> 't block" where
  "RSU4F_init nn in_ch mid_ch out_ch =
     RSU4F (ConvBNReLU_init nn in_ch out_ch 3 1)
       [ConvBNReLU_init nn out_ch mid_ch 3 1,
        ConvBNReLU_init nn mid_ch mid_ch 3 2,
        ConvBNReLU_init nn mid_ch mid_ch 3 4,
        ConvBNReLU_init nn mid_ch mid_ch 3 8]
       [ConvBNReLU_init nn (mid_ch * 2) mid_ch 3 4,
        ConvBNReLU_init nn (mid_ch * 2) mid_ch 3 2,
        ConvBNReLU_init nn (mid_ch * 2) out_ch 3 1]"

type_synonym stage = "nat \<times> nat \<times> nat \<times> nat \<times> bool \<times> bool"

record cfg =
  encode :: "stage list"
  decode :: "stage list"

fun stage_blocks :: "'t nn \<Rightarrow> stage list \<Rightarrow> py_error + 't block list" where
  "stage_blocks nn [] = Inr []"
| "stage_blocks nn ((height, in_ch, mid_ch, out_ch, rsu4f, side) # cs) =
     bindE (if rsu4f = False then RSU_init nn height in_ch mid_ch out_ch
            else Inr (RSU4F_init nn in_ch mid_ch out_ch)) (\<lambda>m.
     bindE (stage_blocks nn cs) (\<lambda>ms. Inr (m # ms)))"

fun stage_sides :: "'t nn \<Rightarrow> nat \<Rightarrow> stage list \<Rightarrow> 't module list" where
  "stage_sides nn out_ch [] = []"
| "stage_sides nn out_ch ((height, in_ch, mid_ch, c3, rsu4f, side) # cs) =
     (if side = True then [nn_Conv2d nn c3 out_ch 3 1 1] else []) @ stage_sides nn out_ch cs"

definition U2Net_init :: "'t nn \<Rightarrow> cfg \<Rightarrow> nat \<Rightarrow> string \<Rightarrow> py_error + 't U2Net" where
  "U2Net_init nn cfg out_ch md =
     (if md \<notin> set [''1x1conv'', ''laplacian_pyr''] then Inl AssertionError
      else
        bindE (stage_blocks nn (encode cfg)) (\<lambda>encode_list.
        bindE (stage_blocks nn (decode cfg)) (\<lambda>decode_list.
        Inr \<lparr>mode = md, encode_num = length (encode cfg),
             encode_modules = encode_list, decode_modules = decode_list,
             side_modules = stage_sides nn out_ch (encode cfg) @ stage_sides nn out_ch (decode cfg),
             out_conv = nn_Conv2d_1x1 nn init_1x1_w init_1x1_b\<rparr>)))"

definition u2net_full :: "'t nn \<Rightarrow> nat \<Rightarrow> nat \<Rightarrow> string \<Rightarrow> py_error + 't U2Net" where
  "u2net_full nn out_ch in_ch md =
     (let cfg = \<lparr>encode = [(7, in_ch, 32, 64, False, False),
                           (6, 64, 32, 128, False, False),
                           (5, 128, 64, 256, False, False),
                           (4, 256, 128, 512, False, False),
                           (4, 512, 256, 512, True, False),
                           (4, 512, 256, 512, True, True)],
                 decode = [(4, 1024, 256, 512, True, True),
                           (4, 1024, 128, 256, False, True),
                           (5, 512, 64, 128, False, True),
                           (6, 256, 32, 64, False, True),
                           (7, 128, 16, 64, False, True)]\<rparr>
      in U2Net_init nn cfg out_ch md)"

text \<open>
  The modules on tensor sizes, with the mode \<open>training\<close> the network is called in; a
  convolution of kernel size 1 with a given weight has as many input channels as the rows
  of the weight are long and as many output channels as the weight has rows.
\<close>

definition nn_sizes :: "bool \<Rightarrow> nat list nn" where
  "nn_sizes training =
     \<lparr>nn_Conv2d = Conv2d, nn_BatchNorm2d = BatchNorm2d training,
      nn_Conv2d_1x1 = (\<lambda>weight bias.
        Conv2d (case weight of [] \<Rightarrow> 0 | row # _ \<Rightarrow> length row) (length weight) 1 0 1)\<rparr>"

subsection \<open>UNetDeepMass\<close>

record 't UNetDeepMass =
  conv1 :: "'t module"
  bn1 :: "'t module"
  pool :: "'t module"
  conv2 :: "'t module"
  bn2 :: "'t module"
  conv3 :: "'t module"
  bn3 :: "'t module"
  conv4 :: "'t module"
  bn4 :: "'t module"
  conv_deep :: "'t module"
  bn_deep :: "'t module"
  upsample :: "'t module"
  conv_deep2 :: "'t module"
  bn_deep2 :: "'t module"
  conv5 :: "'t module"
  bn5 :: "'t module"
  conv6 :: "'t module"
  bn6 :: "'t module"
  conv7 :: "'t module"
  bn7 :: "'t module"
  conv_out :: "'t module"
  activation :: "'t module"

definition UNetDeepMass_forward :: "'t functional \<Rightarrow> 't UNetDeepMass \<Rightarrow> 't module" where
  "UNetDeepMass_forward F net x =
     bindE (conv1 net x) (\<lambda>x1.
     bindE (bn1 net x1) (\<lambda>x1. let x1 = F_relu F x1 in
     bindE (pool net x1) (\<lambda>pool1.
     bindE (conv2 net pool1) (\<lambda>x2.
     bindE (bn2 net x2) (\<lambda>x2. let x2 = F_relu F x2 in
     bindE (pool net x2) (\<lambda>pool2.
     bindE (conv3 net pool2) (\<lambda>x3.
     bindE (bn3 net x3) (\<lambda>x3. let x3 = F_relu F x3 in
     bindE (pool net x3) (\<lambda>pool3.
     bindE (conv4 net pool3) (\<lambda>x4.
     bindE (bn4 net x4) (\<lambda>x4. let x4 = F_relu F x4 in
     bindE (pool net x4) (\<lambda>pool_deep.
     bindE (conv_deep net pool_deep) (\<lambda>xdeep.
     bindE (bn_deep net xdeep) (\<lambda>xdeep. let xdeep = F_relu F xdeep in
     bindE (upsample net xdeep) (\<lambda>updeep.
     bindE (torch_cat F [x4, updeep]) (\<lambda>mergedeep.
     bindE (conv_deep2 net mergedeep) (\<lambda>xdeep2.
     bindE (bn_deep2 net xdeep2) (\<lambda>xdeep2. let xdeep2 = F_relu F xdeep2 in
     bindE (upsample net xdeep2) (\<lambda>up5.
     bindE (torch_cat F [x3, up5]) (\<lambda>merge5.
     bindE (bn5 net merge5) (\<lambda>merge5.
     bindE (conv5 net merge5) (\<lambda>x5. let x5 = F_relu F x5 in
     bindE (upsample net x5) (\<lambda>up6.
     bindE (torch_cat F [x2, up6]) (\<lambda>merge6.
     bindE (bn6 net merge6) (\<lambda>merge6.
     bindE (conv6 net merge6) (\<lambda>x6. let x6 = F_relu F x6 in
     bindE (upsample net x6) (\<lambda>up7.
     bindE (torch_cat F [x1, up7]) (\<lambda>merge7.
     bindE (bn7 net merge7) (\<lambda>merge7.
     bindE (conv7 net merge7) (\<lambda>x7.
     bindE (conv_out net x7) (\<lambda>output.
     activation net output)))))))))))))))))))))))))))))))"

text \<open>\<^verbatim>\<open>UNetDeepMass.__init__\<close> on tensor sizes; the sigmoid keeps the size.\<close>

definition UNetDeepMass_init :: "bool \<Rightarrow> nat list \<Rightarrow> py_error + nat list UNetDeepMass" where
  "UNetDeepMass_init training channels =
     (case channels of
        c0 # c1 # _ \<Rightarrow>
          Inr \<lparr>conv1 = Conv2d c0 16 3 1 1, bn1 = BatchNorm2d training 16,
               pool = avg_pool2d False,
               conv2 = Conv2d 16 32 3 1 1, bn2 = BatchNorm2d training 32,
               conv3 = Conv2d 32 64 3 1 1, bn3 = BatchNorm2d training 64,
               conv4 = Conv2d 64 64 3 1 1, bn4 = BatchNorm2d training 64,
               conv_deep = Conv2d 64 64 3 1 1, bn_deep = BatchNorm2d training 64,
               upsample = Upsample 2,
               conv_deep2 = Conv2d 128 64 3 1 1, bn_deep2 = BatchNorm2d training 64,
               conv5 = Conv2d 128 64 3 1 1, bn5 = BatchNorm2d training 128,
               conv6 = Conv2d 96 32 3 1 1, bn6 = BatchNorm2d training 96,
               conv7 = Conv2d 48 16 3 1 1, bn7 = BatchNorm2d training 48,
               conv_out = Conv2d 16 c1 1 0 1,
               activation = (\<lambda>s. Inr s)\<rparr>
      | _ \<Rightarrow> Inl IndexError)"

subsection \<open>Tensor values: the fusion convolution\<close>

text \<open>
  For the fusion of the side outputs the values matter: here a tensor is its size and its
  element at each index (batch entry, channel, row, column), floats being modelled as
  reals. \<open>concat_channels\<close> is \<^verbatim>\<open>torch.concat(..., dim=1)\<close>; \<open>conv2d_1x1\<close> is a convolution
  of kernel size 1 with the weight \<open>weight ! oc ! i\<close> from input channel \<open>i\<close> to output
  channel \<open>oc\<close>, which is what \<open>nn_Conv2d_1x1\<close> stands for on tensor values; like every
  convolution it rejects an input of another number of channels or of extent 0.
\<close>

record tensor =
  dims :: "nat list"
  elem :: "nat \<Rightarrow> nat \<Rightarrow> nat \<Rightarrow> nat \<Rightarrow> real"

fun cat_elem :: "tensor list \<Rightarrow> nat \<Rightarrow> nat \<Rightarrow> nat \<Rightarrow> nat \<Rightarrow> real" where
  "cat_elem [] n c y x = 0"
| "cat_elem (t # ts) n c y x =
     (if c < dims t ! 1 then elem t n c y x else cat_elem ts n (c - dims t ! 1) y x)"

definition concat_channels :: "tensor list \<Rightarrow> py_error + tensor" where
  "concat_channels tensors =
     (case tensors of
        [] \<Rightarrow> Inl RuntimeError
      | t # _ \<Rightarrow>
          (case dims t of
             [b, c, h, w] \<Rightarrow>
               if list_all (\<lambda>s. length (dims s) = 4 \<and> dims s ! 0 = b \<and> dims s ! 2 = h
                                 \<and> dims s ! 3 = w) tensors
               then Inr \<lparr>dims = [b, sum_list (map (\<lambda>s. dims s ! 1) tensors), h, w],
                         elem = cat_elem tensors\<rparr>
               else Inl RuntimeError
           | _ \<Rightarrow> Inl RuntimeError))"

definition conv2d_1x1 :: "real list list \<Rightarrow> real list \<Rightarrow> tensor module" where
  "conv2d_1x1 weight bias t =
     (case dims t of
        [b, c, h, w] \<Rightarrow>
          if list_all (\<lambda>row. length row = c) weight \<and> length bias = length weight
             \<and> 0 < h \<and> 0 < w
          then Inr \<lparr>dims = [b, length weight, h, w],
                    elem = (\<lambda>n oc y x.
                      bias ! oc + sum_list (map (\<lambda>i. weight ! oc ! i * elem t n i y x) [0..<c]))\<rparr>
          else Inl RuntimeError
      | _ \<Rightarrow> Inl RuntimeError)"

text \<open>
  What the forward pass of the network needs of the torch operations on tensor values:
  each of them raises exactly when the operation on sizes does and otherwise returns a
  tensor of the size the operation on sizes gives; the concatenation and the convolution
  with a given weight are the ones above.
\<close>

definition torch_semantics :: "bool \<Rightarrow> tensor nn \<Rightarrow> tensor functional \<Rightarrow> bool" where
  "torch_semantics training nn F \<longleftrightarrow>
     (\<forall>i oc k p d t. map_result dims (nn_Conv2d nn i oc k p d t) = Conv2d i oc k p d (dims t))
   \<and> (\<forall>c t. map_result dims (nn_BatchNorm2d nn c t) = BatchNorm2d training c (dims t))
   \<and> nn_Conv2d_1x1 nn = conv2d_1x1
   \<and> (\<forall>t. dims (F_relu F t) = dims t)
   \<and> (\<forall>t. map_result dims (F_avg_pool2d F t) = avg_pool2d True (dims t))
   \<and> (\<forall>t sz. map_result dims (F_interpolate F t sz) = interpolate (dims t) sz)
   \<and> torch_cat F = concat_channels
   \<and> (\<forall>a b. map_result dims (tensor_add F a b) = add (dims a) (dims b))
   \<and> tensor_shape F = dims"

text \<open>
  Modules, layers and blocks on tensor values that behave on the sizes as modules,
  layers and blocks on tensor sizes do.
\<close>

definition msim :: "tensor module \<Rightarrow> nat list module \<Rightarrow> bool" where
  "msim m ms \<longleftrightarrow> (\<forall>t. map_result dims (m t) = ms (dims t))"

definition msim2 ::
  "(tensor \<Rightarrow> tensor \<Rightarrow> py_error + tensor) \<Rightarrow> (nat list \<Rightarrow> nat list \<Rightarrow> py_error + nat list) \<Rightarrow> bool" where
  "msim2 m ms \<longleftrightarrow> (\<forall>a b. map_result dims (m a b) = ms (dims a) (dims b))"

fun lsim :: "tensor layer \<Rightarrow> nat list layer \<Rightarrow> bool" where
  "lsim (ConvBNReLU c b) (ConvBNReLU c' b') \<longleftrightarrow> msim c c' \<and> msim b b'"
| "lsim (DownConvBNReLU c b f) (DownConvBNReLU c' b' f') \<longleftrightarrow> msim c c' \<and> msim b b' \<and> f = f'"
| "lsim (UpConvBNReLU c b f) (UpConvBNReLU c' b' f') \<longleftrightarrow> msim c c' \<and> msim b b' \<and> f = f'"
| "lsim _ _ \<longleftrightarrow> False"

fun bsim :: "tensor block \<Rightarrow> nat list block \<Rightarrow> bool" where
  "bsim (RSU c e d) (RSU c' e' d') \<longleftrightarrow> lsim c c' \<and> list_all2 lsim e e' \<and> list_all2 lsim d d'"
| "bsim (RSU4F c e d) (RSU4F c' e' d') \<longleftrightarrow> lsim c c' \<and> list_all2 lsim e e' \<and> list_all2 lsim d d'"
| "bsim _ _ \<longleftrightarrow> False"

text \<open>
  Two notions to state sizes: the extent after one ceil-mode pooling, and the condition
  under which batch normalisation accepts a batch of \<open>b\<close> maps of extent \<open>h\<close> by \<open>w\<close>.
\<close>

definition half :: "nat \<Rightarrow> nat" where
  "half h = (h - 1) div 2 + 1"

definition bn_ok :: "bool \<Rightarrow> nat \<Rightarrow> nat \<Rightarrow> nat \<Rightarrow> bool" where
  "bn_ok tr b h w \<longleftrightarrow> \<not> (tr \<and> b * h * w = 1)"

text \<open>
  Building a network and calling it on a tensor of a given size: \<^verbatim>\<open>u2net_full(mode=md)(x)\<close>
  with the default one output channel and two input channels, and
  \<^verbatim>\<open>UNetDeepMass(channels)(x)\<close>.
\<close>

definition u2net_full_call :: "bool \<Rightarrow> string \<Rightarrow> nat list \<Rightarrow> py_error + nat list list" where
  "u2net_full_call training md x =
     bindE (u2net_full (nn_sizes training) 1 2 md) (\<lambda>net. U2Net_forward F_shape net x)"

definition UNetDeepMass_call :: "bool \<Rightarrow> nat list \<Rightarrow> nat list \<Rightarrow> py_error + nat list" where
  "UNetDeepMass_call training channels x =
     bindE (UNetDeepMass_init training channels) (\<lambda>net. UNetDeepMass_forward F_shape net x)"

section \<open>visu_gaussian_blur.py\<close>

text \<open>
  The state of the figure that the callbacks read and write: the values of the two sliders,
  the contents of the two text boxes and the image shown in the right panel.
  The widget toolkit is outside the repository and is modelled by what the script relies
  on: \<^verbatim>\<open>Slider.set_val\<close> stores the value and calls the observer registered with
  \<^verbatim>\<open>on_changed\<close> (here update_slider), whose exceptions reach the caller;
  \<^verbatim>\<open>TextBox.set_val\<close> stores the text; \<^verbatim>\<open>draw_idle\<close> only schedules a redraw.

  The content of a text box is what the user typed or what the script wrote there with
  \<^verbatim>\<open>str\<close> of a float or of an int. \<^verbatim>\<open>float\<close> of typed text is the parameter \<open>py_float\<close>
  (\<open>None\<close> for \<^verbatim>\<open>ValueError\<close>); \<^verbatim>\<open>float(str(v))\<close> is \<open>v\<close>. Floats are modelled as reals:
  \<open>py_int\<close> is \<^verbatim>\<open>int(x)\<close>, truncation towards zero, and \<open>py_round2\<close> is \<^verbatim>\<open>round(x, 2)\<close>,
  to the nearest hundredth, ties to even. The filter \<^verbatim>\<open>ndimage.gaussian_filter\<close> on the
  loaded map is a parameter: from the standard deviation and the optional radius to the
  blurred image or the exception raised.
\<close>

datatype box_text = Typed string | Str_float real | Str_int int

definition float_of_text :: "(string \<Rightarrow> real option) \<Rightarrow> box_text \<Rightarrow> real option" where
  "float_of_text py_float t =
     (case t of Typed s \<Rightarrow> py_float s | Str_float r \<Rightarrow> Some r | Str_int i \<Rightarrow> Some (real_of_int i))"

definition py_int :: "real \<Rightarrow> int" where
  "py_int r = (if 0 \<le> r then \<lfloor>r\<rfloor> else \<lceil>r\<rceil>)"

definition py_round2 :: "real \<Rightarrow> real" where
  "py_round2 r =
     (let y = r * 100; f = \<lfloor>y\<rfloor>
      in real_of_int (if y - real_of_int f < 1 / 2 then f
                      else if 1 / 2 < y - real_of_int f then f + 1
                      else if even f then f else f + 1) / 100)"

record 'img gui =
  sigma_slider_val :: real
  rad_slider_val :: real
  sigma_text_box_text :: box_text
  rad_text_box_text :: box_text
  im2_data :: 'img

type_synonym 'img filter = "real \<Rightarrow> int option \<Rightarrow> py_error + 'img"

definition update_slider :: "'img filter \<Rightarrow> 'img gui \<Rightarrow> 'img gui \<times> py_error option" where
  "update_slider gaussian_filter st =
     (let sigma = sigma_slider_val st;
          radius = py_int (rad_slider_val st)
      in case gaussian_filter sigma (Some radius) of
           Inl e \<Rightarrow> (st, Some e)
         | Inr img_blur \<Rightarrow>
             (st\<lparr>im2_data := img_blur,
                 sigma_text_box_text := Str_float sigma,
                 rad_text_box_text := Str_int radius\<rparr>, None))"

definition sigma_slider_set_val ::
  "'img filter \<Rightarrow> real \<Rightarrow> 'img gui \<Rightarrow> 'img gui \<times> py_error option" where
  "sigma_slider_set_val gaussian_filter v st =
     update_slider gaussian_filter (st\<lparr>sigma_slider_val := v\<rparr>)"

definition rad_slider_set_val ::
  "'img filter \<Rightarrow> real \<Rightarrow> 'img gui \<Rightarrow> 'img gui \<times> py_error option" where
  "rad_slider_set_val gaussian_filter v st =
     update_slider gaussian_filter (st\<lparr>rad_slider_val := v\<rparr>)"

text \<open>
  The callback of the two-slider branch (lines 62 to 70), the one that runs since
  \<^verbatim>\<open>radius_init\<close> is 1: the bare \<^verbatim>\<open>except\<close> swallows every exception of the body and keeps
  what the body had done until then.
\<close>

definition update_text_box ::
  "(string \<Rightarrow> real option) \<Rightarrow> 'img filter \<Rightarrow> 'img gui \<Rightarrow> 'img gui \<times> py_error option" where
  "update_text_box py_float gaussian_filter st =
     (case float_of_text py_float (sigma_text_box_text st) of
        None \<Rightarrow> (st, None)
      | Some sigma \<Rightarrow>
          (case sigma_slider_set_val gaussian_filter (py_round2 sigma) st of
             (st1, Some e) \<Rightarrow> (st1, None)
           | (st1, None) \<Rightarrow>
               (case float_of_text py_float (rad_text_box_text st1) of
                  None \<Rightarrow> (st1, None)
                | Some radius \<Rightarrow>
                    (fst (rad_slider_set_val gaussian_filter (py_round2 radius) st1), None))))"

text \<open>The branch with the one slider (lines 79 to 95).\<close>

definition update_slider_sigma :: "'img filter \<Rightarrow> 'img gui \<Rightarrow> 'img gui \<times> py_error option" where
  "update_slider_sigma gaussian_filter st =
     (let sigma = sigma_slider_val st
      in case gaussian_filter sigma None of
           Inl e \<Rightarrow> (st, Some e)
         | Inr img_blur \<Rightarrow>
             (st\<lparr>im2_data := img_blur, sigma_text_box_text := Str_float sigma\<rparr>, None))"

definition update_text_box_sigma ::
  "(string \<Rightarrow> real option) \<Rightarrow> 'img filter \<Rightarrow> 'img gui \<Rightarrow> 'img gui \<times> py_error option" where
  "update_text_box_sigma py_float gaussian_filter st =
     (case float_of_text py_float (sigma_text_box_text st) of
        None \<Rightarrow> (st, None)
      | Some sigma \<Rightarrow>
          (fst (update_slider_sigma gaussian_filter (st\<lparr>sigma_slider_val := py_round2 sigma\<rparr>)),
           None))"

section \<open>Example inputs of the network and the visualizer\<close>

text \<open>
  For the visualizer: a stand-in for \<^verbatim>\<open>float\<close> that agrees with it on the texts it is run on
  (a non-empty string of decimal digits parses to its value, letters do not parse), a
  filter that returns the parameters it was called with and rejects a negative radius as
  scipy does, and a figure where the user has typed 2 as standard deviation and letters
  as radius.
\<close>

definition ex_float :: "string \<Rightarrow> real option" where
  "ex_float s =
     (if s \<noteq> [] \<and> list_all (\<lambda>c. c \<in> set ''0123456789'') s
      then Some (real (foldl (\<lambda>n c. 10 * n + (of_char c - 48)) 0 s)) else None)"

definition ex_filter :: "(real \<times> int option) filter" where
  "ex_filter sigma radius =
     (case radius of Some r \<Rightarrow> if r < 0 then Inl ValueError else Inr (sigma, radius)
      | None \<Rightarrow> Inr (sigma, radius))"

definition ex_gui :: "(real \<times> int option) gui" where
  "ex_gui = \<lparr>sigma_slider_val = 1, rad_slider_val = 1, sigma_text_box_text = Typed ''2'',
             rad_text_box_text = Typed ''abc'', im2_data = (1, Some 1)\<rparr>"


text \<open>
  For the fusion: stand-ins for the torch operations on tensor values that compute the
  sizes as torch does and take the elements from their input, except the convolution,
  whose result holds its number of input channels everywhere, so that the six side
  outputs are told apart; the modules are in training mode. The input holds two batch
  entries of two channels and 32 by 32 pixels.
\<close>

definition ex_nn :: "tensor nn" where
  "ex_nn =
     \<lparr>nn_Conv2d = (\<lambda>i oc k p d t.
        map_result (\<lambda>s. \<lparr>dims = s, elem = (\<lambda>n c y x. real i)\<rparr>) (Conv2d i oc k p d (dims t))),
      nn_BatchNorm2d = (\<lambda>c t. map_result (\<lambda>s. t\<lparr>dims := s\<rparr>) (BatchNorm2d True c (dims t))),
      nn_Conv2d_1x1 = conv2d_1x1\<rparr>"

definition ex_F :: "tensor functional" where
  "ex_F =
     \<lparr>F_relu = (\<lambda>t. t),
      F_avg_pool2d = (\<lambda>t. map_result (\<lambda>s. t\<lparr>dims := s\<rparr>) (avg_pool2d True (dims t))),
      F_interpolate = (\<lambda>t sz. map_result (\<lambda>s. t\<lparr>dims := s\<rparr>) (interpolate (dims t) sz)),
      torch_cat = concat_channels,
      tensor_add = (\<lambda>a b. map_result (\<lambda>s. a\<lparr>dims := s\<rparr>) (add (dims a) (dims b))),
      tv_resize = (\<lambda>t sz. map_result (\<lambda>s. t\<lparr>dims := s\<rparr>) (interpolate (dims t) sz)),
      tensor_shape = dims\<rparr>"

definition ex_x :: tensor where
  "ex_x = \<lparr>dims = [2, 2, 32, 32], elem = (\<lambda>n c y x. real (n + c + y + x))\<rparr>"


section \<open>Properties of make_master_cubes_multiproc.py\<close>

subsection \<open>Sequencing and index reads\<close>

lemma bindE_Inl [simp]: "bindE (Inl e) f = Inl e"
  by (simp add: bindE_def)

lemma bindE_Inr [simp]: "bindE (Inr v) f = f v"
  by (simp add: bindE_def)

lemma bindE_eq_Inr: "bindE m f = Inr y \<longleftrightarrow> (\<exists>v. m = Inr v \<and> f v = Inr y)"
  by (cases m) simp_all

lemma map_result_simps [simp]:
  "map_result f (Inl e) = Inl e" "map_result f (Inr v) = Inr (f v)"
  by (simp_all add: map_result_def)

lemma map_result_eq_Inr: "map_result f r = Inr y \<longleftrightarrow> (\<exists>v. r = Inr v \<and> y = f v)"
  by (cases r) auto

lemma map_result_bindE: "map_result f (bindE m g) = bindE m (\<lambda>x. map_result f (g x))"
  by (cases m) simp_all

lemma bindE_assoc: "bindE (bindE m f) g = bindE m (\<lambda>x. bindE (f x) g)"
  by (cases m) simp_all

lemma getitem_plane: "getitem a i = (if i < n_planes a then Inr (plane a i) else Inl IndexError)"
  by (simp add: getitem_def n_planes_def plane_def split: list.splits)

lemma n_planes_take: "n_planes (take_planes n a) = min n (n_planes a)"
  by (simp add: n_planes_def take_planes_def split: list.splits)

lemma take_plane_prefix:
  assumes "i < n"
  shows "take p (drop (i * p) (take (n * p) xs)) = take p (drop (i * p) xs)"
proof -
  from assms obtain d where n: "n = Suc (i + d)" using less_iff_Suc_add by blast
  have "n * p - i * p = p + d * p" unfolding n by (simp add: algebra_simps)
  then have m: "min p (n * p - i * p) = p" by simp
  have "take p (drop (i * p) (take (n * p) xs)) = take p (take (n * p - i * p) (drop (i * p) xs))"
    by (simp only: drop_take)
  also have "\<dots> = take (min p (n * p - i * p)) (drop (i * p) xs)"
    by (simp only: take_take)
  finally show ?thesis by (simp only: m)
qed

lemma plane_take_planes: "i < n \<Longrightarrow> plane (take_planes n a) i = plane a i"
  by (cases "shape a") (simp_all add: take_planes_def plane_def take_plane_prefix)

lemma load_planes_closed:
  "load_planes a cube =
     (if bare a then
        if 5 \<le> n_planes cube
        then Inr \<lparr>shear1 = plane cube 0, shear2 = plane cube 1, pred = plane cube 2,
                  true = plane cube 3, res = plane cube 4,
                  ks = None, wiener = None, mcalens = None\<rparr>
        else Inl IndexError
      else if have_mcalens a then
        if 8 \<le> n_planes cube
        then Inr \<lparr>shear1 = plane cube 0, shear2 = plane cube 1, pred = plane cube 5,
                  true = plane cube 6, res = plane cube 7,
                  ks = Some (plane cube 2), wiener = Some (plane cube 3),
                  mcalens = Some (plane cube 4)\<rparr>
        else Inl IndexError
      else
        if 7 \<le> n_planes cube
        then Inr \<lparr>shear1 = plane cube 0, shear2 = plane cube 1, pred = plane cube 4,
                  true = plane cube 5, res = plane cube 6,
                  ks = Some (plane cube 2), wiener = Some (plane cube 3), mcalens = None\<rparr>
        else Inl IndexError)"
  by (simp add: load_planes_def getitem_plane)


lemmas ex_defs = ex_env_def ex_args_def ex_files_def ex_cube_def ex_spectrum_def scale_def

lemmas make_cube_defs = make_cube_def fits_open_def path_join_def load_planes_def getitem_def
  init_shear_def shape_noise_def sigma_e_def theta_G_def derive_classical_def derive_mcalens_def
  local_var_def save_cube_def concatenate_def expand_dims_def float32_def fits_writeto_def
  neg_def Let_def eval_nat_numeral


lemma load_planes_bare:
  assumes "bare a" and "load_planes a cube = Inr l"
  shows "mcalens l = None \<and> ks l = None \<and> wiener l = None \<and> 5 \<le> n_planes cube
         \<and> shear1 l = plane cube 0 \<and> shear2 l = plane cube 1
         \<and> pred l = plane cube 2 \<and> true l = plane cube 3"
  using assms by (auto simp: load_planes_closed split: if_splits)

lemma load_planes_not_bare:
  assumes "\<not> bare a" and "load_planes a cube = Inr l"
  shows "ks l = Some (plane cube 2) \<and> wiener l = Some (plane cube 3)
         \<and> shear1 l = plane cube 0 \<and> shear2 l = plane cube 1
         \<and> pred l = plane cube (if have_mcalens a then 5 else 4)
         \<and> true l = plane cube (if have_mcalens a then 6 else 5)
         \<and> mcalens l = (if have_mcalens a then Some (plane cube 4) else None)"
  using assms by (auto simp: load_planes_closed split: if_splits)

lemma derive_classical_Inr:
  assumes "derive_classical e a D ps pn l = Inr l'"
  shows "mcalens l' = mcalens l \<and> pred l' = pred l \<and> true l' = true l
         \<and> (if bare a
              then \<exists>k w. M_g2k e (g1 D) (g2 D) = Inr k \<and> M_wiener e (g1 D) (g2 D) ps pn = Inr w
                     \<and> ks l' = Some k \<and> wiener l' = Some w
              else l' = l)"
  using assms by (auto simp: derive_classical_def bindE_eq_Inr split: if_splits)

lemma derive_mcalens_Inr:
  assumes "derive_mcalens e a D ps l = Inr l'"
  shows "ks l' = ks l \<and> wiener l' = wiener l \<and> pred l' = pred l \<and> true l' = true l
         \<and> (if have_mcalens a then l' = l
              else \<exists>m. M_sparse_wiener_filtering e D ps 12 5 False False = Inr m
                     \<and> mcalens l' = Some m)"
  using assms by (auto simp: derive_mcalens_def bindE_eq_Inr split: if_splits)

lemma init_shear_Inr:
  assumes "init_shear a l = Inr D"
  shows "g1 D = neg (shear1 l) \<and> g2 D = shear2 l"
  using assms by (auto simp: init_shear_def bindE_eq_Inr)

lemma local_var_Inr: "local_var name v = Inr x \<longleftrightarrow> v = Some x"
  by (simp add: local_var_def split: option.splits)

text \<open>What a successful run of make_cube went through.\<close>

lemma make_cube_Inr:
  assumes "make_cube e a fname fs = Inr fs'"
  shows "\<exists>cube l D ps pn l1 sp l2 k w m.
           fits_open fs (path_join (dir a) fname) = Inr cube
         \<and> load_planes a cube = Inr l
         \<and> init_shear a l = Inr D
         \<and> pysparse_found e
         \<and> fits_open fs ''./signal_power_spectrum.fits'' = Inr ps
         \<and> fits_open fs ''./noise_power_spectrum_g50.fits'' = Inr pn
         \<and> derive_classical e a D ps pn l = Inr l1
         \<and> M_sparse_recons e D False 12 5 False False = Inr sp
         \<and> derive_mcalens e a D ps l1 = Inr l2
         \<and> ks l2 = Some k \<and> wiener l2 = Some w \<and> mcalens l2 = Some m
         \<and> save_cube (np_float32 e) (true l2) (pred l2) k w sp m (save_dir a) fname fs = Inr fs'"
  using assms unfolding make_cube_def bindE_eq_Inr local_var_Inr
  by (auto split: if_splits)

lemma make_cube_bare_mcalens_fails:
  assumes "bare a" and "have_mcalens a"
  shows "make_cube e a fname fs \<noteq> Inr fs'"
proof
  assume "make_cube e a fname fs = Inr fs'"
  from make_cube_Inr [OF this] obtain cube l D ps pn l1 l2 m where
    l: "load_planes a cube = Inr l" and l1: "derive_classical e a D ps pn l = Inr l1"
    and l2: "derive_mcalens e a D ps l1 = Inr l2" and m: "mcalens l2 = Some m"
    by blast
  from load_planes_bare [OF assms(1) l] have "mcalens l = None" by simp
  with derive_classical_Inr [OF l1] have "mcalens l1 = None" by simp
  with derive_mcalens_Inr [OF l2] assms(2) have "mcalens l2 = None" by simp
  with m show False by simp
qed


subsection \<open>Claims\<close>

text \<open>
  C6. For every positive galaxy density \<open>n\<close> the function returns a standard deviation
  \<open>s > 0\<close> (no exception, no nan); the value at \<open>k * n\<close> is \<open>s / sqrt k\<close> for every
  positive factor \<open>k\<close>, so it scales as the inverse square root of the density, and the
  value at \<open>4 * n\<close> is \<open>s / 2\<close>. The result is a function of \<open>n\<close> alone.
\<close>

theorem shape_noise_inverse_sqrt:
  assumes "0 < n" and "0 < k"
  shows "\<exists>s. shape_noise n = Inr (Some s) \<and> 0 < s
           \<and> shape_noise (k * n) = Inr (Some (s / sqrt k))
           \<and> shape_noise (4 * n) = Inr (Some (s / 2))"
proof -
  let ?c = "(sigma_e\<^sup>2 / 2) / theta_G\<^sup>2"
  have c: "0 < ?c" by (simp add: sigma_e_def theta_G_def)
  have t: "theta_G\<^sup>2 \<noteq> 0" by (simp add: theta_G_def)
  have v: "(sigma_e\<^sup>2 / 2) / (theta_G\<^sup>2 * m) = ?c / m" for m
    by (simp add: field_simps)
  have val: "shape_noise m = Inr (Some (sqrt (?c / m)))" if "0 < m" for m
  proof -
    have "0 < ?c / m" by (rule divide_pos_pos [OF c that])
    then have "\<not> (sigma_e\<^sup>2 / 2) / (theta_G\<^sup>2 * m) < 0" using v [of m] by simp
    moreover have "theta_G\<^sup>2 * m \<noteq> 0" using t that by simp
    ultimately show ?thesis unfolding shape_noise_def Let_def v [of m] by simp
  qed
  have kn: "0 < k * n" and n4: "0 < 4 * n" using assms by simp_all
  have sc: "sqrt (d / (j * n)) = sqrt (d / n) / sqrt j" for d j :: real
    by (simp add: real_sqrt_divide real_sqrt_mult)
  have "sqrt (?c / (k * n)) = sqrt (?c / n) / sqrt k"
    by (rule sc)
  moreover have "sqrt (?c / (4 * n)) = sqrt (?c / n) / 2"
    using sc [of ?c 4] by (simp only: real_sqrt_four)
  moreover have "0 < sqrt (?c / n)"
    using divide_pos_pos [OF c assms(1)] by (simp only: real_sqrt_gt_0_iff)
  ultimately show ?thesis
    using val [OF assms(1)] val [OF kn] val [OF n4] by simp
qed

theorem shape_noise_inverse_sqrt_witness:
  "\<exists>s. shape_noise 50 = Inr (Some s) \<and> 0 < s
       \<and> shape_noise (9 * 50) = Inr (Some (s / sqrt 9))
       \<and> shape_noise (4 * 50) = Inr (Some (s / 2))"
  using shape_noise_inverse_sqrt [of 50 9] by simp

lemma save_cube_out:
  "map_result (\<lambda>fs'. fs' (path_join sd name)) (save_cube f32 t ml k w s m sd name fs)
     = bindE (concatenate [expand_dims t, expand_dims ml, expand_dims k, expand_dims w,
                           expand_dims s, expand_dims m])
         (\<lambda>c. Inr (Some (float32 f32 c)))"
  by (simp add: save_cube_def Let_def map_result_bindE fits_writeto_def)

lemma fits_open_upd:
  "fits_open (fs(p \<mapsto> c)) q = (if q = p then Inr c else fits_open fs q)"
  by (simp add: fits_open_def)

lemma make_cube_closed:
  "make_cube e a fname fs =
     bindE (fits_open fs (path_join (dir a) fname)) (\<lambda>cube.
     if n_planes cube < (if bare a then 5 else if have_mcalens a then 8 else 7)
     then Inl IndexError
     else
       bindE (shape_noise (real_of_int (n_galaxy a))) (\<lambda>noise_std.
       let D = \<lparr>g1 = neg (plane cube 0), g2 = plane cube 1,
                Ncov = \<lparr>c_shape = [512, 512], c_value = map_option (\<lambda>s. s\<^sup>2) noise_std\<rparr>,
                nx = 512, ny = 512\<rparr> in
       bindE (if pysparse_found e then Inr () else Inl (NameError ''pysparse'')) (\<lambda>_.
       bindE (fits_open fs ''./signal_power_spectrum.fits'') (\<lambda>p_signal.
       bindE (fits_open fs ''./noise_power_spectrum_g50.fits'') (\<lambda>p_noise.
       bindE (if bare a then M_g2k e (g1 D) (g2 D) else Inr (plane cube 2)) (\<lambda>ks_v.
       bindE (if bare a then M_wiener e (g1 D) (g2 D) p_signal p_noise
              else Inr (plane cube 3)) (\<lambda>wiener_v.
       bindE (M_sparse_recons e D False 12 5 False False) (\<lambda>sparse.
       bindE (if have_mcalens a
              then if bare a then Inl (UnboundLocalError ''mcalens'') else Inr (plane cube 4)
              else M_sparse_wiener_filtering e D p_signal 12 5 False False) (\<lambda>mcalens_v.
       save_cube (np_float32 e)
         (plane cube (if bare a then 3 else if have_mcalens a then 6 else 5))
         (plane cube (if bare a then 2 else if have_mcalens a then 5 else 4))
         ks_v wiener_v sparse mcalens_v (save_dir a) fname fs)))))))))"
proof (cases "fits_open fs (path_join (dir a) fname)")
  case (Inl err)
  then show ?thesis by (simp add: make_cube_def)
next
  case (Inr cube)
  show ?thesis
  proof (cases "bare a")
    case True
    show ?thesis
    proof (cases "have_mcalens a")
      case hm: True
      show ?thesis
        using Inr True hm
        by (simp add: make_cube_def load_planes_closed init_shear_def Let_def
            derive_classical_def derive_mcalens_def bindE_assoc local_var_def not_less)
    next
      case hm: False
      show ?thesis
        using Inr True hm
        by (simp add: make_cube_def load_planes_closed init_shear_def Let_def
            derive_classical_def derive_mcalens_def bindE_assoc local_var_def not_less)
    qed
  next
    case False
    show ?thesis
    proof (cases "have_mcalens a")
      case hm: True
      show ?thesis
        using Inr False hm
        by (simp add: make_cube_def load_planes_closed init_shear_def Let_def
            derive_classical_def derive_mcalens_def bindE_assoc local_var_def not_less)
    next
      case hm: False
      show ?thesis
        using Inr False hm
        by (simp add: make_cube_def load_planes_closed init_shear_def Let_def
            derive_classical_def derive_mcalens_def bindE_assoc local_var_def not_less)
    qed
  qed
qed


lemma make_cube_short:
  assumes "k < (if bare a then 5 else if have_mcalens a then 8 else 7)"
  shows "make_cube e a fname (fs(path_join (dir a) fname \<mapsto> take_planes k cube))
           = Inl IndexError"
proof -
  let ?fs = "fs(path_join (dir a) fname \<mapsto> take_planes k cube)"
  have f: "fits_open ?fs (path_join (dir a) fname) = Inr (take_planes k cube)"
    by (simp add: fits_open_def)
  have n: "n_planes (take_planes k cube) < (if bare a then 5 else if have_mcalens a then 8 else 7)"
    using assms by (simp add: n_planes_take)
  show ?thesis
    unfolding make_cube_closed [where fs = ?fs] f using n by simp
qed

lemma make_cube_prefix:
  assumes "path_join (dir a) fname \<noteq> ''./signal_power_spectrum.fits''"
    and "path_join (dir a) fname \<noteq> ''./noise_power_spectrum_g50.fits''"
  shows "map_result (\<lambda>fs'. fs' (path_join (save_dir a) fname))
           (make_cube e a fname (fs(path_join (dir a) fname \<mapsto>
              take_planes (if bare a then 5 else if have_mcalens a then 8 else 7) cube)))
         = map_result (\<lambda>fs'. fs' (path_join (save_dir a) fname))
             (make_cube e a fname (fs(path_join (dir a) fname \<mapsto> cube)))"
proof -
  let ?p = "path_join (dir a) fname"
  let ?N = "if bare a then 5 else if have_mcalens a then 8 else 7 :: nat"
  note c1 = make_cube_closed [where fs = "fs(?p \<mapsto> take_planes ?N cube)" and a = a
      and e = e and fname = fname]
  note c2 = make_cube_closed [where fs = "fs(?p \<mapsto> cube)" and a = a and e = e
      and fname = fname]
  have ne: "''./signal_power_spectrum.fits'' \<noteq> ?p" "''./noise_power_spectrum_g50.fits'' \<noteq> ?p"
    using assms by auto
  show ?thesis
  proof (cases "n_planes cube < ?N")
    case True
    then show ?thesis
      unfolding c1 c2 by (simp add: fits_open_upd n_planes_take split: if_splits)
  next
    case False
    then have n: "n_planes (take_planes ?N cube) = ?N" "\<not> n_planes cube < ?N"
      by (simp_all add: n_planes_take)
    show ?thesis
    proof (cases "bare a")
      case True
      show ?thesis
        unfolding c1 c2 using True n ne
        by (cases "have_mcalens a")
           (simp_all add: fits_open_upd plane_take_planes map_result_bindE Let_def save_cube_out)
    next
      case False
      show ?thesis
        unfolding c1 c2 using False n ne
        by (cases "have_mcalens a")
           (simp_all add: fits_open_upd plane_take_planes map_result_bindE Let_def save_cube_out)
    qed
  qed
qed

text \<open>
  C1. On every input make_cube is the run written out below on the planes of the cube it
  opened. It raises \<^verbatim>\<open>IndexError\<close> when the cube has fewer than 5 planes with \<^verbatim>\<open>bare\<close>, 8
  planes without \<^verbatim>\<open>bare\<close> and with \<^verbatim>\<open>have_mcalens\<close>, 7 planes with neither. Otherwise the
  shear handed to the library is \<open>g1 = - plane 0\<close> and \<open>g2 = plane 1\<close>, and save_cube gets
  plane 3, 6 or 5 as the true map and plane 2, 5 or 4 as the predicted map; planes 2 and 3
  (and 4 with \<^verbatim>\<open>have_mcalens\<close>) are the estimates without \<^verbatim>\<open>bare\<close>. No other plane is read:
  when the path of the cube is not the path of one of the two spectra, the run on the
  first 5, 8 or 7 planes alone raises the same error or writes the same output cube as
  the run on the whole cube, and the run on any shorter prefix raises \<^verbatim>\<open>IndexError\<close>.
\<close>

theorem make_cube_plane_selection:
  "make_cube e a fname fs = bindE (fits_open fs (path_join (dir a) fname)) (\<lambda>cube.
     if n_planes cube < (if bare a then 5 else if have_mcalens a then 8 else 7)
     then Inl IndexError
     else
       bindE (shape_noise (real_of_int (n_galaxy a))) (\<lambda>noise_std.
       let D = \<lparr>g1 = neg (plane cube 0), g2 = plane cube 1,
                Ncov = \<lparr>c_shape = [512, 512], c_value = map_option (\<lambda>s. s\<^sup>2) noise_std\<rparr>,
                nx = 512, ny = 512\<rparr> in
       bindE (if pysparse_found e then Inr () else Inl (NameError ''pysparse'')) (\<lambda>_.
       bindE (fits_open fs ''./signal_power_spectrum.fits'') (\<lambda>p_signal.
       bindE (fits_open fs ''./noise_power_spectrum_g50.fits'') (\<lambda>p_noise.
       bindE (if bare a then M_g2k e (g1 D) (g2 D) else Inr (plane cube 2)) (\<lambda>ks_v.
       bindE (if bare a then M_wiener e (g1 D) (g2 D) p_signal p_noise
              else Inr (plane cube 3)) (\<lambda>wiener_v.
       bindE (M_sparse_recons e D False 12 5 False False) (\<lambda>sparse.
       bindE (if have_mcalens a
              then if bare a then Inl (UnboundLocalError ''mcalens'') else Inr (plane cube 4)
              else M_sparse_wiener_filtering e D p_signal 12 5 False False) (\<lambda>mcalens_v.
       save_cube (np_float32 e)
         (plane cube (if bare a then 3 else if have_mcalens a then 6 else 5))
         (plane cube (if bare a then 2 else if have_mcalens a then 5 else 4))
         ks_v wiener_v sparse mcalens_v (save_dir a) fname fs)))))))))
   \<and> (path_join (dir a) fname \<noteq> ''./signal_power_spectrum.fits''
        \<and> path_join (dir a) fname \<noteq> ''./noise_power_spectrum_g50.fits'' \<longrightarrow>
      map_result (\<lambda>fs'. fs' (path_join (save_dir a) fname))
        (make_cube e a fname (fs(path_join (dir a) fname \<mapsto>
           take_planes (if bare a then 5 else if have_mcalens a then 8 else 7) c)))
      = map_result (\<lambda>fs'. fs' (path_join (save_dir a) fname))
          (make_cube e a fname (fs(path_join (dir a) fname \<mapsto> c))))
   \<and> (\<forall>k. k < (if bare a then 5 else if have_mcalens a then 8 else 7) \<longrightarrow>
        make_cube e a fname (fs(path_join (dir a) fname \<mapsto> take_planes k c)) = Inl IndexError)"
  using make_cube_closed [of e a fname fs] make_cube_prefix [of a fname e fs c]
    make_cube_short [of _ a e fname fs c]
  by blast

theorem make_cube_plane_selection_witness:
  "path_join (dir (ex_args True False)) ''map.fits'' = ''in/map.fits''
   \<and> ''in/map.fits'' \<noteq> ''./signal_power_spectrum.fits''
   \<and> ''in/map.fits'' \<noteq> ''./noise_power_spectrum_g50.fits''
   \<and> map_result (\<lambda>fs'. fs' ''out/map.fits'')
       (make_cube ex_env (ex_args True False) ''map.fits'' (ex_files [1, 2, 3, 4, 5, 6]))
     = Inr (Some \<lparr>shape = [6, 1, 1], data = [4, 3, - 10, 40, - 30, 80]\<rparr>)
   \<and> map_result (\<lambda>fs'. fs' ''out/map.fits'')
       (make_cube ex_env (ex_args True False) ''map.fits''
          ((ex_files [1, 2, 3, 4, 5, 6])(''in/map.fits'' \<mapsto>
             take_planes 5 (ex_cube [1, 2, 3, 4, 5, 6]))))
     = Inr (Some \<lparr>shape = [6, 1, 1], data = [4, 3, - 10, 40, - 30, 80]\<rparr>)
   \<and> (4 :: nat) < 5
   \<and> make_cube ex_env (ex_args True False) ''map.fits''
       ((ex_files [1, 2, 3, 4, 5, 6])(''in/map.fits'' \<mapsto>
          take_planes 4 (ex_cube [1, 2, 3, 4, 5, 6])))
     = Inl IndexError"
proof -
  let ?a = "ex_args True False" and ?c = "ex_cube [1, 2, 3, 4, 5, 6]"
  let ?fs = "ex_files [1, 2, 3, 4, 5, 6]"
  note S = make_cube_plane_selection [where e = ex_env and a = ?a and fname = "''map.fits''"
      and fs = ?fs and c = ?c]
  have p: "path_join (dir ?a) ''map.fits'' = ''in/map.fits''"
    "path_join (save_dir ?a) ''map.fits'' = ''out/map.fits''" "bare ?a"
    by (simp_all add: path_join_def ex_args_def)
  have u: "?fs(''in/map.fits'' \<mapsto> ?c) = ?fs"
    by (auto simp: ex_files_def)
  have 1: "map_result (\<lambda>fs'. fs' ''out/map.fits'') (make_cube ex_env ?a ''map.fits'' ?fs)
             = Inr (Some \<lparr>shape = [6, 1, 1], data = [4, 3, - 10, 40, - 30, 80]\<rparr>)"
    by (simp add: make_cube_defs ex_defs)
  from S p have 2: "map_result (\<lambda>fs'. fs' ''out/map.fits'')
       (make_cube ex_env ?a ''map.fits'' (?fs(''in/map.fits'' \<mapsto> take_planes 5 ?c)))
     = map_result (\<lambda>fs'. fs' ''out/map.fits'') (make_cube ex_env ?a ''map.fits'' ?fs)"
    by (simp add: u)
  from S p have 3: "make_cube ex_env ?a ''map.fits''
       (?fs(''in/map.fits'' \<mapsto> take_planes 4 ?c)) = Inl IndexError"
    by simp
  show ?thesis
    unfolding 2 using p(1) 1 3 by simp
qed

lemmas eval_defs = fits_open_def path_join_def load_planes_def getitem_def
  init_shear_def shape_noise_def sigma_e_def theta_G_def derive_classical_def derive_mcalens_def
  local_var_def save_cube_def concatenate_def expand_dims_def float32_def fits_writeto_def
  neg_def Let_def eval_nat_numeral

text \<open>
  C10 as stated fails: with both flags set, a cube of two planes makes the run raise
  \<^verbatim>\<open>IndexError\<close> at the read of plane 2, not the unbound-variable error.
\<close>

theorem make_cube_short_cube_counterexample:
  "bare (ex_args True True) \<and> have_mcalens (ex_args True True)
   \<and> make_cube ex_env (ex_args True True) ''map.fits'' (ex_files [1, 2]) = Inl IndexError"
  by (simp add: make_cube_defs ex_defs)

text \<open>
  C10, amended. With \<^verbatim>\<open>bare\<close> and \<^verbatim>\<open>have_mcalens\<close> both set, make_cube fails on every
  input and writes nothing: the run is the sequence of the steps before the call of
  save_cube (opening the cube, the plane reads, the shear object, the wavelet objects, the
  two spectra, the direct inversion, the Wiener filtering, the sparse reconstruction), any
  of which may raise its own error, ended by \<^verbatim>\<open>UnboundLocalError\<close> for \<^verbatim>\<open>mcalens\<close> when
  all of them return.
\<close>

theorem make_cube_bare_have_mcalens:
  assumes "bare a" and "have_mcalens a"
  shows "make_cube e a fname fs =
           bindE (fits_open fs (path_join (dir a) fname)) (\<lambda>cube.
           bindE (load_planes a cube) (\<lambda>l.
           bindE (init_shear a l) (\<lambda>D.
           bindE (if pysparse_found e then Inr () else Inl (NameError ''pysparse'')) (\<lambda>_.
           bindE (fits_open fs ''./signal_power_spectrum.fits'') (\<lambda>p_signal.
           bindE (fits_open fs ''./noise_power_spectrum_g50.fits'') (\<lambda>p_noise.
           bindE (M_g2k e (g1 D) (g2 D)) (\<lambda>k.
           bindE (M_wiener e (g1 D) (g2 D) p_signal p_noise) (\<lambda>w.
           bindE (M_sparse_recons e D False 12 5 False False) (\<lambda>sparse.
           Inl (UnboundLocalError ''mcalens''))))))))))
       \<and> (\<exists>err. make_cube e a fname fs = Inl err)
       \<and> files_after fs (make_cube e a fname fs) = fs"
proof -
  have m: "mcalens l = None" if "load_planes a cube = Inr l" for cube l
    using load_planes_bare [OF assms(1) that] by simp
  have 1: "make_cube e a fname fs =
           bindE (fits_open fs (path_join (dir a) fname)) (\<lambda>cube.
           bindE (load_planes a cube) (\<lambda>l.
           bindE (init_shear a l) (\<lambda>D.
           bindE (if pysparse_found e then Inr () else Inl (NameError ''pysparse'')) (\<lambda>_.
           bindE (fits_open fs ''./signal_power_spectrum.fits'') (\<lambda>p_signal.
           bindE (fits_open fs ''./noise_power_spectrum_g50.fits'') (\<lambda>p_noise.
           bindE (M_g2k e (g1 D) (g2 D)) (\<lambda>k.
           bindE (M_wiener e (g1 D) (g2 D) p_signal p_noise) (\<lambda>w.
           bindE (M_sparse_recons e D False 12 5 False False) (\<lambda>sparse.
           Inl (UnboundLocalError ''mcalens''))))))))))"
    unfolding make_cube_def derive_classical_def derive_mcalens_def
    using assms m
    by (auto simp: bindE_def local_var_def split: sum.splits)
  obtain err where 2: "make_cube e a fname fs = Inl err"
    using make_cube_bare_mcalens_fails [OF assms] by (cases "make_cube e a fname fs") auto
  then have "files_after fs (make_cube e a fname fs) = fs" by (simp add: files_after_def)
  with 1 2 show ?thesis by blast
qed


theorem make_cube_bare_have_mcalens_witness:
  "bare (ex_args True True) \<and> have_mcalens (ex_args True True)
   \<and> make_cube ex_env (ex_args True True) ''map.fits'' (ex_files [1, 2, 3, 4, 5])
       = Inl (UnboundLocalError ''mcalens'')
   \<and> files_after (ex_files [1, 2, 3, 4, 5])
        (make_cube ex_env (ex_args True True) ''map.fits'' (ex_files [1, 2, 3, 4, 5]))
       = ex_files [1, 2, 3, 4, 5]"
proof -
  have b: "bare (ex_args True True)" and m: "have_mcalens (ex_args True True)"
    by (simp_all add: ex_args_def)
  note T = make_cube_bare_have_mcalens [OF b m, of ex_env "''map.fits''" "ex_files [1, 2, 3, 4, 5]"]
  have "make_cube ex_env (ex_args True True) ''map.fits'' (ex_files [1, 2, 3, 4, 5])
       = Inl (UnboundLocalError ''mcalens'')"
    unfolding T [THEN conjunct1] by (simp add: eval_defs ex_defs)
  with T b m show ?thesis by simp
qed

text \<open>
  C2 as stated fails: the code does the opposite. With \<^verbatim>\<open>bare\<close> set, on a cube whose five
  planes hold 1 to 5, the direct-inversion and Wiener planes written are the library's
  results (\<open>-10\<close> and \<open>40\<close>), which are no plane of the cube, and when the two library
  routines raise, the run raises.
\<close>

theorem make_cube_bare_rederives_counterexample:
  "bare (ex_args True False)
   \<and> make_cube ex_env (ex_args True False) ''map.fits'' (ex_files [1, 2, 3, 4, 5])
       = Inr ((ex_files [1, 2, 3, 4, 5])(''out/map.fits'' \<mapsto>
           \<lparr>shape = [6, 1, 1], data = [4, 3, -10, 40, -30, 80]\<rparr>))
   \<and> make_cube ex_env_no_classical (ex_args True False) ''map.fits'' (ex_files [1, 2, 3, 4, 5])
       = Inl RuntimeError"
  by (simp add: make_cube_defs ex_defs ex_env_no_classical_def)

text \<open>
  C2, amended. When \<^verbatim>\<open>bare\<close> is not set, make_cube takes the direct-inversion and Wiener
  estimates from planes 2 and 3 of the input cube and does not call the library for them:
  its outcome is the same whatever the two routines are. When \<^verbatim>\<open>bare\<close> is set, the cube has
  no such planes and the two estimates written are what the library's direct inversion and
  Wiener filtering return on \<open>g1 = - plane 0\<close> and \<open>g2 = plane 1\<close>.
\<close>

theorem make_cube_classical_estimators:
  "(\<not> bare a \<longrightarrow>
       make_cube (e\<lparr>M_g2k := f, M_wiener := g\<rparr>) a fname fs = make_cube e a fname fs
     \<and> (\<forall>fs'. make_cube e a fname fs = Inr fs' \<longrightarrow>
          (\<exists>cube sp m. fits_open fs (path_join (dir a) fname) = Inr cube
             \<and> save_cube (np_float32 e) (plane cube (if have_mcalens a then 6 else 5))
                 (plane cube (if have_mcalens a then 5 else 4)) (plane cube 2) (plane cube 3)
                 sp m (save_dir a) fname fs = Inr fs')))
   \<and> (bare a \<longrightarrow>
       (\<forall>fs'. make_cube e a fname fs = Inr fs' \<longrightarrow>
          (\<exists>cube ps pn k w sp m.
              fits_open fs (path_join (dir a) fname) = Inr cube
            \<and> fits_open fs ''./signal_power_spectrum.fits'' = Inr ps
            \<and> fits_open fs ''./noise_power_spectrum_g50.fits'' = Inr pn
            \<and> M_g2k e (neg (plane cube 0)) (plane cube 1) = Inr k
            \<and> M_wiener e (neg (plane cube 0)) (plane cube 1) ps pn = Inr w
            \<and> save_cube (np_float32 e) (plane cube 3) (plane cube 2) k w sp m
                (save_dir a) fname fs = Inr fs')))"
proof (intro conjI impI allI)
  assume "\<not> bare a"
  then show "make_cube (e\<lparr>M_g2k := f, M_wiener := g\<rparr>) a fname fs = make_cube e a fname fs"
    by (cases "have_mcalens a") (simp_all add: make_cube_def derive_classical_def derive_mcalens_def)
next
  fix fs' assume nb: "\<not> bare a" and ok: "make_cube e a fname fs = Inr fs'"
  from make_cube_Inr [OF ok] obtain cube l D ps pn l1 sp l2 k w m where
    c: "fits_open fs (path_join (dir a) fname) = Inr cube"
    and l: "load_planes a cube = Inr l"
    and l1: "derive_classical e a D ps pn l = Inr l1"
    and l2: "derive_mcalens e a D ps l1 = Inr l2"
    and v: "ks l2 = Some k" "wiener l2 = Some w"
    and s: "save_cube (np_float32 e) (true l2) (pred l2) k w sp m (save_dir a) fname fs = Inr fs'"
    by blast
  from derive_classical_Inr [OF l1] nb have "l1 = l" by simp
  with derive_mcalens_Inr [OF l2] load_planes_not_bare [OF nb l] v
  have "k = plane cube 2" "w = plane cube 3"
    "true l2 = plane cube (if have_mcalens a then 6 else 5)"
    "pred l2 = plane cube (if have_mcalens a then 5 else 4)"
    by simp_all
  with s have "save_cube (np_float32 e) (plane cube (if have_mcalens a then 6 else 5))
                 (plane cube (if have_mcalens a then 5 else 4)) (plane cube 2) (plane cube 3)
                 sp m (save_dir a) fname fs = Inr fs'"
    by simp
  with c show "\<exists>cube sp m. fits_open fs (path_join (dir a) fname) = Inr cube
             \<and> save_cube (np_float32 e) (plane cube (if have_mcalens a then 6 else 5))
                 (plane cube (if have_mcalens a then 5 else 4)) (plane cube 2) (plane cube 3)
                 sp m (save_dir a) fname fs = Inr fs'"
    by blast
next
  fix fs' assume b: "bare a" and ok: "make_cube e a fname fs = Inr fs'"
  from make_cube_Inr [OF ok] obtain cube l D ps pn l1 sp l2 k w m where
    c: "fits_open fs (path_join (dir a) fname) = Inr cube"
    and l: "load_planes a cube = Inr l"
    and D: "init_shear a l = Inr D"
    and ps: "fits_open fs ''./signal_power_spectrum.fits'' = Inr ps"
    and pn: "fits_open fs ''./noise_power_spectrum_g50.fits'' = Inr pn"
    and l1: "derive_classical e a D ps pn l = Inr l1"
    and l2: "derive_mcalens e a D ps l1 = Inr l2"
    and v: "ks l2 = Some k" "wiener l2 = Some w"
    and s: "save_cube (np_float32 e) (true l2) (pred l2) k w sp m (save_dir a) fname fs = Inr fs'"
    by blast
  note L = load_planes_bare [OF b l]
  from init_shear_Inr [OF D] L have g: "g1 D = neg (plane cube 0)" "g2 D = plane cube 1"
    by simp_all
  from derive_classical_Inr [OF l1] b derive_mcalens_Inr [OF l2] v g
  have kw: "M_g2k e (neg (plane cube 0)) (plane cube 1) = Inr k"
    "M_wiener e (neg (plane cube 0)) (plane cube 1) ps pn = Inr w"
    by auto
  from derive_classical_Inr [OF l1] derive_mcalens_Inr [OF l2] L
  have "true l2 = plane cube 3" "pred l2 = plane cube 2" by simp_all
  with s have "save_cube (np_float32 e) (plane cube 3) (plane cube 2) k w sp m
                (save_dir a) fname fs = Inr fs'"
    by simp
  with c ps pn kw show "\<exists>cube ps pn k w sp m.
              fits_open fs (path_join (dir a) fname) = Inr cube
            \<and> fits_open fs ''./signal_power_spectrum.fits'' = Inr ps
            \<and> fits_open fs ''./noise_power_spectrum_g50.fits'' = Inr pn
            \<and> M_g2k e (neg (plane cube 0)) (plane cube 1) = Inr k
            \<and> M_wiener e (neg (plane cube 0)) (plane cube 1) ps pn = Inr w
            \<and> save_cube (np_float32 e) (plane cube 3) (plane cube 2) k w sp m
                (save_dir a) fname fs = Inr fs'"
    by blast
qed


theorem make_cube_classical_estimators_witness:
  "\<not> bare (ex_args False True)
   \<and> make_cube ex_env_no_classical (ex_args False True) ''map.fits''
        (ex_files [1, 2, 3, 4, 5, 6, 7, 8])
       = Inr ((ex_files [1, 2, 3, 4, 5, 6, 7, 8])(''out/map.fits'' \<mapsto>
           \<lparr>shape = [6, 1, 1], data = [7, 6, 3, 4, -30, 5]\<rparr>))
   \<and> bare (ex_args True False)
   \<and> make_cube ex_env (ex_args True False) ''map.fits'' (ex_files [1, 2, 3, 4, 5])
       = Inr ((ex_files [1, 2, 3, 4, 5])(''out/map.fits'' \<mapsto>
           \<lparr>shape = [6, 1, 1], data = [4, 3, -10, 40, -30, 80]\<rparr>))
   \<and> (\<exists>cube ps pn k w.
          fits_open (ex_files [1, 2, 3, 4, 5]) (path_join (dir (ex_args True False)) ''map.fits'')
            = Inr cube
        \<and> M_g2k ex_env (neg (plane cube 0)) (plane cube 1) = Inr k
        \<and> M_wiener ex_env (neg (plane cube 0)) (plane cube 1) ps pn = Inr w)"
proof -
  let ?f = "\<lambda>a b :: ndarray. Inl RuntimeError :: py_error + ndarray"
  let ?g = "\<lambda>a b ps pn :: ndarray. Inl RuntimeError :: py_error + ndarray"
  note T1 = make_cube_classical_estimators [where a = "ex_args False True"
      and e = ex_env and f = ?f and g = ?g and fname = "''map.fits''"
      and fs = "ex_files [1, 2, 3, 4, 5, 6, 7, 8]"]
  have nb: "\<not> bare (ex_args False True)" by (simp add: ex_args_def)
  have e1: "make_cube ex_env (ex_args False True) ''map.fits'' (ex_files [1, 2, 3, 4, 5, 6, 7, 8])
       = Inr ((ex_files [1, 2, 3, 4, 5, 6, 7, 8])(''out/map.fits'' \<mapsto>
           \<lparr>shape = [6, 1, 1], data = [7, 6, 3, 4, -30, 5]\<rparr>))"
    by (simp add: make_cube_defs ex_defs)
  from T1 nb have "make_cube (ex_env\<lparr>M_g2k := ?f, M_wiener := ?g\<rparr>) (ex_args False True)
      ''map.fits'' (ex_files [1, 2, 3, 4, 5, 6, 7, 8])
      = make_cube ex_env (ex_args False True) ''map.fits'' (ex_files [1, 2, 3, 4, 5, 6, 7, 8])"
    by blast
  with e1 have 1: "make_cube ex_env_no_classical (ex_args False True) ''map.fits''
        (ex_files [1, 2, 3, 4, 5, 6, 7, 8])
       = Inr ((ex_files [1, 2, 3, 4, 5, 6, 7, 8])(''out/map.fits'' \<mapsto>
           \<lparr>shape = [6, 1, 1], data = [7, 6, 3, 4, -30, 5]\<rparr>))"
    by (simp only: ex_env_no_classical_def)
  note T2 = make_cube_classical_estimators [where a = "ex_args True False"
      and e = ex_env and f = ?f and g = ?g and fname = "''map.fits''"
      and fs = "ex_files [1, 2, 3, 4, 5]"]
  have b: "bare (ex_args True False)" by (simp add: ex_args_def)
  have e2: "make_cube ex_env (ex_args True False) ''map.fits'' (ex_files [1, 2, 3, 4, 5])
       = Inr ((ex_files [1, 2, 3, 4, 5])(''out/map.fits'' \<mapsto>
           \<lparr>shape = [6, 1, 1], data = [4, 3, -10, 40, -30, 80]\<rparr>))"
    by (simp add: make_cube_defs ex_defs)
  from T2 b e2 have 2: "\<exists>cube ps pn k w.
          fits_open (ex_files [1, 2, 3, 4, 5]) (path_join (dir (ex_args True False)) ''map.fits'')
            = Inr cube
        \<and> M_g2k ex_env (neg (plane cube 0)) (plane cube 1) = Inr k
        \<and> M_wiener ex_env (neg (plane cube 0)) (plane cube 1) ps pn = Inr w"
    by blast
  from nb 1 b e2 2 show ?thesis by blast
qed

lemma concat_plane:
  assumes "\<forall>xs \<in> set xss. length xs = n" and "i < length xss"
  shows "take n (drop (i * n) (concat xss)) = xss ! i"
  using assms
proof (induction xss arbitrary: i)
  case Nil
  then show ?case by simp
next
  case (Cons x xss)
  then have x: "length x = n" by simp
  show ?case
  proof (cases i)
    case 0
    then show ?thesis using x by simp
  next
    case (Suc j)
    then have "drop (i * n) (x @ concat xss) = drop (j * n) (concat xss)"
      using x by simp
    then show ?thesis using Cons Suc by simp
  qed
qed

lemma save_cube_closed:
  assumes "list_all (\<lambda>p. shape p = [h, w] \<and> length (data p) = h * w) [t, ml, k, wi, sp, m]"
  shows "save_cube f32 t ml k wi sp m sdir sname fs =
           Inr (fs(path_join sdir sname \<mapsto>
             \<lparr>shape = [6, h, w],
              data = map f32 (concat [data t, data ml, data k, data wi, data sp, data m])\<rparr>))"
  using assms
  by (simp add: save_cube_def concatenate_def expand_dims_def float32_def fits_writeto_def
      eval_nat_numeral)

lemma getitem_stack:
  assumes "\<forall>xs \<in> set xss. length xs = h * w" and "i < length xss" and "length xss = n"
  shows "getitem \<lparr>shape = [n, h, w], data = map f32 (concat xss)\<rparr> i
           = Inr \<lparr>shape = [h, w], data = map f32 (xss ! i)\<rparr>"
proof -
  have "take (h * w) (drop (i * (h * w)) (map f32 (concat xss))) = map f32 (xss ! i)"
    using concat_plane [OF assms(1,2)] by (simp add: take_map drop_map)
  then show ?thesis using assms(2,3) by (simp add: getitem_def)
qed

text \<open>
  C3 as stated fails on six 2-D planes that do not share one shape: the concatenation raises
  \<^verbatim>\<open>ValueError\<close> and nothing is written.
\<close>

theorem save_cube_shape_mismatch_counterexample:
  "save_cube id \<lparr>shape = [1, 1], data = [1]\<rparr> (ex_plane 2) (ex_plane 3) (ex_plane 4)
     (ex_plane 5) (ex_plane 6) ''out'' ''map.fits'' Map.empty = Inl ValueError"
  by (simp add: save_cube_def concatenate_def expand_dims_def ex_plane_def)

text \<open>
  C3, amended. For every six 2-D planes of one common shape \<open>(h, w)\<close>, save_cube succeeds and
  changes the file store at one path only, \<^verbatim>\<open>os.path.join(save_dir, save_name)\<close>, replacing
  what was there; this path is \<open>save_dir/save_name\<close> for a non-empty directory without a
  trailing slash and a relative file name. The array written has shape \<open>(6, h, w)\<close>; its
  planes 0 to 5 are the single-precision casts of true, predicted, direct inversion,
  Wiener, sparse and combined, in this order, each of shape \<open>(h, w)\<close>.
\<close>

theorem save_cube_six_planes:
  assumes "list_all (\<lambda>p. shape p = [h, w] \<and> length (data p) = h * w) [t, ml, k, wi, sp, m]"
  shows "\<exists>c. save_cube f32 t ml k wi sp m sdir sname fs = Inr (fs(path_join sdir sname \<mapsto> c))
           \<and> shape c = [6, h, w]
           \<and> getitem c 0 = Inr (float32 f32 t)
           \<and> getitem c 1 = Inr (float32 f32 ml)
           \<and> getitem c 2 = Inr (float32 f32 k)
           \<and> getitem c 3 = Inr (float32 f32 wi)
           \<and> getitem c 4 = Inr (float32 f32 sp)
           \<and> getitem c 5 = Inr (float32 f32 m)
           \<and> getitem c 6 = Inl IndexError
           \<and> (sdir \<noteq> [] \<and> last sdir \<noteq> CHR ''/'' \<and> (sname = [] \<or> hd sname \<noteq> CHR ''/'')
                \<longrightarrow> path_join sdir sname = sdir @ ''/'' @ sname)"
proof -
  let ?xss = "[data t, data ml, data k, data wi, data sp, data m]"
  let ?c = "\<lparr>shape = [6, h, w], data = map f32 (concat ?xss)\<rparr>"
  have len: "\<forall>xs \<in> set ?xss. length xs = h * w" using assms by simp
  have n: "length ?xss = 6" by simp
  have g: "getitem ?c i = Inr \<lparr>shape = [h, w], data = map f32 (?xss ! i)\<rparr>" if "i < 6" for i
    using getitem_stack [OF len _ n, of i f32] that by simp
  have sh: "shape t = [h, w]" "shape ml = [h, w]" "shape k = [h, w]" "shape wi = [h, w]"
    "shape sp = [h, w]" "shape m = [h, w]"
    using assms by simp_all
  have "getitem ?c 0 = Inr (float32 f32 t)" using g [of 0] sh by (simp add: float32_def)
  moreover have "getitem ?c 1 = Inr (float32 f32 ml)" using g [of 1] sh by (simp add: float32_def)
  moreover have "getitem ?c 2 = Inr (float32 f32 k)" using g [of 2] sh by (simp add: float32_def)
  moreover have "getitem ?c 3 = Inr (float32 f32 wi)" using g [of 3] sh by (simp add: float32_def)
  moreover have "getitem ?c 4 = Inr (float32 f32 sp)" using g [of 4] sh by (simp add: float32_def)
  moreover have "getitem ?c 5 = Inr (float32 f32 m)" using g [of 5] sh by (simp add: float32_def)
  moreover have "getitem ?c 6 = Inl IndexError" by (simp add: getitem_def)
  moreover have "save_cube f32 t ml k wi sp m sdir sname fs = Inr (fs(path_join sdir sname \<mapsto> ?c))"
    by (rule save_cube_closed [OF assms])
  moreover have "shape ?c = [6, h, w]" by simp
  moreover have "sdir \<noteq> [] \<and> last sdir \<noteq> CHR ''/'' \<and> (sname = [] \<or> hd sname \<noteq> CHR ''/'')
                \<longrightarrow> path_join sdir sname = sdir @ ''/'' @ sname"
    by (auto simp: path_join_def)
  ultimately show ?thesis by blast
qed


theorem save_cube_six_planes_witness:
  "list_all (\<lambda>p. shape p = [1, 2] \<and> length (data p) = 1 * 2)
     [ex_plane 1, ex_plane 2, ex_plane 3, ex_plane 4, ex_plane 5, ex_plane 6]
   \<and> ''out'' \<noteq> [] \<and> last ''out'' \<noteq> CHR ''/'' \<and> hd ''map.fits'' \<noteq> CHR ''/''
   \<and> (\<exists>c. save_cube (\<lambda>x. x) (ex_plane 1) (ex_plane 2) (ex_plane 3) (ex_plane 4) (ex_plane 5)
            (ex_plane 6) ''out'' ''map.fits'' [''out/map.fits'' \<mapsto> ex_plane 0]
            = Inr [''out/map.fits'' \<mapsto> c]
          \<and> shape c = [6, 1, 2]
          \<and> getitem c 0 = Inr (ex_plane 1) \<and> getitem c 5 = Inr (ex_plane 6))"
proof -
  have h: "list_all (\<lambda>p. shape p = [1, 2] \<and> length (data p) = 1 * 2)
     [ex_plane 1, ex_plane 2, ex_plane 3, ex_plane 4, ex_plane 5, ex_plane 6]"
    by (simp add: ex_plane_def)
  have p: "''out'' \<noteq> [] \<and> last ''out'' \<noteq> CHR ''/'' \<and> hd ''map.fits'' \<noteq> CHR ''/''"
    by simp
  have f: "float32 (\<lambda>x. x) a = a" for a by (simp add: float32_def)
  from save_cube_six_planes [OF h, of "\<lambda>x. x" "''out''" "''map.fits''"
      "[''out/map.fits'' \<mapsto> ex_plane 0]"]
  obtain c where c: "save_cube (\<lambda>x. x) (ex_plane 1) (ex_plane 2) (ex_plane 3) (ex_plane 4)
            (ex_plane 5) (ex_plane 6) ''out'' ''map.fits'' [''out/map.fits'' \<mapsto> ex_plane 0]
            = Inr ([''out/map.fits'' \<mapsto> ex_plane 0](path_join ''out'' ''map.fits'' \<mapsto> c))"
    and s: "shape c = [6, 1, 2]"
    and g0: "getitem c 0 = Inr (ex_plane 1)" and g5: "getitem c 5 = Inr (ex_plane 6)"
    and j: "path_join ''out'' ''map.fits'' = ''out'' @ ''/'' @ ''map.fits''"
    using p unfolding f by blast
  from c j have "save_cube (\<lambda>x. x) (ex_plane 1) (ex_plane 2) (ex_plane 3) (ex_plane 4)
            (ex_plane 5) (ex_plane 6) ''out'' ''map.fits'' [''out/map.fits'' \<mapsto> ex_plane 0]
            = Inr [''out/map.fits'' \<mapsto> c]"
    by simp
  with h p s g0 g5 show ?thesis by blast
qed

section \<open>Properties of miu2net/main/model.py\<close>

subsection \<open>Sizes through the layers and blocks\<close>

lemma half_pos [simp]: "0 < half h"
  by (simp add: half_def)

lemma half_double: "0 < n \<Longrightarrow> half (2 * n) = n"
  by (cases n) (simp_all add: half_def)

lemma bn_ok_half:
  assumes "bn_ok tr b (half h) (half w)"
  shows "bn_ok tr b h w"
  unfolding bn_ok_def
proof
  assume a: "tr \<and> b * h * w = 1"
  then have "b = 1" "h = 1" "w = 1" by simp_all
  then have "b * half h * half w = 1" by (simp add: half_def)
  with assms a show False by (simp add: bn_ok_def)
qed

lemma F_shape_simps [simp]:
  "F_relu F_shape s = s" "F_avg_pool2d F_shape = avg_pool2d True"
  "F_interpolate F_shape = interpolate" "torch_cat F_shape = cat" "tensor_add F_shape = add"
  "tv_resize F_shape = interpolate" "tensor_shape F_shape s = s"
  by (simp_all add: F_shape_def)

lemma nn_sizes_simps [simp]:
  "nn_Conv2d (nn_sizes tr) = Conv2d" "nn_BatchNorm2d (nn_sizes tr) = BatchNorm2d tr"
  "nn_Conv2d_1x1 (nn_sizes tr) init_1x1_w init_1x1_b = Conv2d 6 1 1 0 1"
  by (simp_all add: nn_sizes_def init_1x1_w_def init_1x1_b_def)

lemma avg_pool2d_ceil:
  "0 < h \<Longrightarrow> 0 < w \<Longrightarrow> avg_pool2d True [b, c, h, w] = Inr [b, c, half h, half w]"
  by (simp add: avg_pool2d_def half_def)

lemma interpolate_size:
  "0 < h \<Longrightarrow> 0 < w \<Longrightarrow> 0 < h' \<Longrightarrow> 0 < w' \<Longrightarrow>
   interpolate [b, c, h, w] [h', w'] = Inr [b, c, h', w']"
  by (simp add: interpolate_def)

lemma cat2: "cat [[b, c1, h, w], [b, c2, h, w]] = Inr [b, c1 + c2, h, w]"
  by (simp add: cat_def)

lemma add_same: "add [b, c, h, w] [b, c, h, w] = Inr [b, c, h, w]"
  by (simp add: add_def broadcast_def)

lemma conv3_bn:
  assumes "0 < d" "0 < h" "0 < w" "bn_ok tr b h w"
  shows "bindE (Conv2d cin cout 3 (if d = 1 then 3 div 2 else d) d [b, cin, h, w])
           (\<lambda>y. bindE (BatchNorm2d tr cout y) (\<lambda>z. Inr z)) = Inr [b, cout, h, w]"
  using assms by (auto simp: Conv2d_def BatchNorm2d_def bn_ok_def)

lemma ConvBNReLU_shape:
  assumes "0 < d" "0 < h" "0 < w" "bn_ok tr b h w" "c = cin"
  shows "layer_forward F_shape (ConvBNReLU_init (nn_sizes tr) cin cout 3 d) [b, c, h, w]
           = Inr [b, cout, h, w]"
  using conv3_bn [OF assms(1-4)] assms(5) by (simp add: ConvBNReLU_init_def)

lemma DownConvBNReLU_shape_noflag:
  assumes "0 < h" "0 < w" "bn_ok tr b h w"
  shows "layer_forward F_shape (DownConvBNReLU_init (nn_sizes tr) cin cout 3 (Suc 0) False) [b, cin, h, w]
           = Inr [b, cout, h, w]"
  using conv3_bn [of "Suc 0", OF _ assms] by (simp add: DownConvBNReLU_init_def)

lemma DownConvBNReLU_shape:
  assumes "0 < h" "0 < w" "bn_ok tr b (half h) (half w)"
  shows "layer_forward F_shape (DownConvBNReLU_init (nn_sizes tr) cin cout 3 (Suc 0) True) [b, cin, h, w]
           = Inr [b, cout, half h, half w]"
  using conv3_bn [of "Suc 0" "half h" "half w", OF _ _ _ assms(3)] assms(1,2)
  by (simp add: DownConvBNReLU_init_def avg_pool2d_ceil)

lemma UpConvBNReLU_shape_noflag:
  assumes "0 < h" "0 < w" "bn_ok tr b h w" "c1 + c2 = cin"
  shows "layer_forward2 F_shape (UpConvBNReLU_init (nn_sizes tr) cin cout 3 (Suc 0) False)
           [b, c1, h, w] [b, c2, h, w] = Inr [b, cout, h, w]"
  using conv3_bn [of "Suc 0", OF _ assms(1,2,3)] assms(4)
  by (simp add: UpConvBNReLU_init_def cat2)

lemma UpConvBNReLU_shape:
  assumes "0 < h" "0 < w" "0 < h1" "0 < w1" "bn_ok tr b h w" "c1 + c2 = cin"
  shows "layer_forward2 F_shape (UpConvBNReLU_init (nn_sizes tr) cin cout 3 (Suc 0) True)
           [b, c1, h1, w1] [b, c2, h, w] = Inr [b, cout, h, w]"
  using conv3_bn [of "Suc 0", OF _ assms(1,2,5)] assms
  by (simp add: UpConvBNReLU_init_def cat2 interpolate_size)


lemmas layer_shapes = ConvBNReLU_shape DownConvBNReLU_shape_noflag DownConvBNReLU_shape
  UpConvBNReLU_shape_noflag UpConvBNReLU_shape

lemmas RSU_unfold = RSU_modules_def RSU_forward_def RSU_decode_def pop_def Let_def add_same

lemma upt_5: "[0..<5] = [0, 1, 2, 3, 4]" "[0..<4] = [0, 1, 2, 3]" "[0..<3] = [0, 1, 2]"
  "[0..<2] = [0, 1]"
  by (simp_all add: upt_rec)

lemma RSU_init_modules:
  "2 \<le> n \<Longrightarrow> RSU_init (nn_sizes tr) n cin mid cout = Inr (RSU_modules (nn_sizes tr) n cin mid cout)"
  by (simp add: RSU_init_def)

lemma RSU7_shape:
  assumes "0 < h" "0 < w"
    and bn: "bn_ok tr b (half (half (half (half (half h))))) (half (half (half (half (half w)))))"
  shows "block_forward F_shape (RSU_modules (nn_sizes tr) 7 cin mid cout) [b, cin, h, w]
           = Inr [b, cout, h, w]"
proof -
  note b4 = bn_ok_half [OF bn]
  note b3 = bn_ok_half [OF b4]
  note b2 = bn_ok_half [OF b3]
  note b1 = bn_ok_half [OF b2]
  note b0 = bn_ok_half [OF b1]
  show ?thesis
    using assms(1,2) bn b4 b3 b2 b1 b0
    by (simp add: RSU_unfold layer_shapes upt_5)
qed

lemma RSU6_shape:
  assumes "0 < h" "0 < w"
    and bn: "bn_ok tr b (half (half (half (half h)))) (half (half (half (half w))))"
  shows "block_forward F_shape (RSU_modules (nn_sizes tr) 6 cin mid cout) [b, cin, h, w]
           = Inr [b, cout, h, w]"
proof -
  note b3 = bn_ok_half [OF bn]
  note b2 = bn_ok_half [OF b3]
  note b1 = bn_ok_half [OF b2]
  note b0 = bn_ok_half [OF b1]
  show ?thesis
    using assms(1,2) bn b3 b2 b1 b0
    by (simp add: RSU_unfold layer_shapes upt_5)
qed

lemma RSU5_shape:
  assumes "0 < h" "0 < w"
    and bn: "bn_ok tr b (half (half (half h))) (half (half (half w)))"
  shows "block_forward F_shape (RSU_modules (nn_sizes tr) 5 cin mid cout) [b, cin, h, w]
           = Inr [b, cout, h, w]"
proof -
  note b2 = bn_ok_half [OF bn]
  note b1 = bn_ok_half [OF b2]
  note b0 = bn_ok_half [OF b1]
  show ?thesis
    using assms(1,2) bn b2 b1 b0
    by (simp add: RSU_unfold layer_shapes upt_5)
qed

lemma RSU4_shape:
  assumes "0 < h" "0 < w"
    and bn: "bn_ok tr b (half (half h)) (half (half w))"
  shows "block_forward F_shape (RSU_modules (nn_sizes tr) 4 cin mid cout) [b, cin, h, w]
           = Inr [b, cout, h, w]"
proof -
  note b1 = bn_ok_half [OF bn]
  note b0 = bn_ok_half [OF b1]
  show ?thesis
    using assms(1,2) bn b1 b0
    by (simp add: RSU_unfold layer_shapes upt_5)
qed

lemma RSU4F_shape:
  assumes "0 < h" "0 < w" and bn: "bn_ok tr b h w"
  shows "block_forward F_shape (RSU4F_init (nn_sizes tr) cin mid cout) [b, cin, h, w]
           = Inr [b, cout, h, w]"
  using assms
  by (simp add: RSU4F_init_def RSU4F_forward_def RSU4F_decode_def pop_def add_same
      ConvBNReLU_shape cat2)

lemmas block_shapes = RSU7_shape RSU6_shape RSU5_shape RSU4_shape RSU4F_shape

lemma side_conv: "0 < h \<Longrightarrow> 0 < w \<Longrightarrow> Conv2d c (Suc 0) 3 (Suc 0) (Suc 0) [b, c, h, w] = Inr [b, Suc 0, h, w]"
  by (simp add: Conv2d_def)

lemma fuse_conv: "0 < h \<Longrightarrow> 0 < w \<Longrightarrow> Conv2d 6 (Suc 0) (Suc 0) 0 (Suc 0) [b, 6, h, w] = Inr [b, Suc 0, h, w]"
  by (simp add: Conv2d_def)

lemma cat6: "cat [[b, Suc 0, h, w], [b, Suc 0, h, w], [b, Suc 0, h, w], [b, Suc 0, h, w],
    [b, Suc 0, h, w], [b, Suc 0, h, w]]
   = Inr [b, 6, h, w]"
  by (simp add: cat_def)

lemma u2net_full_Inr:
  "md \<in> {''1x1conv'', ''laplacian_pyr''} \<Longrightarrow>
   u2net_full (nn_sizes tr) (Suc 0) 2 md =
     Inr \<lparr>mode = md, encode_num = 6,
          encode_modules = [RSU_modules (nn_sizes tr) 7 2 32 64, RSU_modules (nn_sizes tr) 6 64 32 128,
            RSU_modules (nn_sizes tr) 5 128 64 256, RSU_modules (nn_sizes tr) 4 256 128 512,
            RSU4F_init (nn_sizes tr) 512 256 512, RSU4F_init (nn_sizes tr) 512 256 512],
          decode_modules = [RSU4F_init (nn_sizes tr) 1024 256 512, RSU_modules (nn_sizes tr) 4 1024 128 256,
            RSU_modules (nn_sizes tr) 5 512 64 128, RSU_modules (nn_sizes tr) 6 256 32 64, RSU_modules (nn_sizes tr) 7 128 16 64],
          side_modules = [Conv2d 512 1 3 1 1, Conv2d 512 1 3 1 1, Conv2d 256 1 3 1 1,
            Conv2d 128 1 3 1 1, Conv2d 64 1 3 1 1, Conv2d 64 1 3 1 1],
          out_conv = Conv2d 6 1 1 0 1\<rparr>"
  by (auto simp: u2net_full_def U2Net_init_def RSU_init_modules)

lemma u2net_1x1conv_shape:
  assumes "0 < h" "0 < w"
    and bn: "bn_ok tr b (half (half (half (half (half h))))) (half (half (half (half (half w)))))"
  shows "bindE (u2net_full (nn_sizes tr) 1 2 ''1x1conv'') (\<lambda>net. U2Net_forward F_shape net [b, 2, h, w])
           = Inr [[b, 1, h, w], [b, 1, h, w], [b, 1, h, w], [b, 1, h, w], [b, 1, h, w],
                  [b, 1, h, w], [b, 1, h, w]]"
proof -
  note b4 = bn_ok_half [OF bn]
  note b3 = bn_ok_half [OF b4]
  note b2 = bn_ok_half [OF b3]
  note b1 = bn_ok_half [OF b2]
  note b0 = bn_ok_half [OF b1]
  show ?thesis
    using assms(1,2) bn b4 b3 b2 b1 b0
    by (simp add: u2net_full_Inr U2Net_forward_def block_shapes pop_def avg_pool2d_ceil
        interpolate_size cat2 cat6 side_conv fuse_conv eval_nat_numeral(1))
qed


lemma u2net_laplacian_shape:
  assumes "32 \<le> h" "32 \<le> w"
    and bn: "bn_ok tr b (half (half (half (half (half h))))) (half (half (half (half (half w)))))"
  shows "bindE (u2net_full (nn_sizes tr) 1 2 ''laplacian_pyr'') (\<lambda>net. U2Net_forward F_shape net [b, 2, h, w])
           = Inr [[b, 1, h, w], [b, 1, h, w], [b, 1, h div 2, w div 2], [b, 1, h div 4, w div 4],
                  [b, 1, h div 8, w div 8], [b, 1, h div 16, w div 16],
                  [b, 1, h div 32, w div 32]]"
proof -
  note b4 = bn_ok_half [OF bn]
  note b3 = bn_ok_half [OF b4]
  note b2 = bn_ok_half [OF b3]
  note b1 = bn_ok_half [OF b2]
  note b0 = bn_ok_half [OF b1]
  have pos: "0 < h" "0 < w" using assms by simp_all
  show ?thesis
    using assms(1,2) pos bn b4 b3 b2 b1 b0
    by (simp add: u2net_full_Inr U2Net_forward_def block_shapes pop_def avg_pool2d_ceil
        interpolate_size cat2 side_conv add_same eval_nat_numeral(1))
qed


lemma BatchNorm2d_ok: "bn_ok tr b h w \<Longrightarrow> BatchNorm2d tr c [b, c, h, w] = Inr [b, c, h, w]"
  by (auto simp: BatchNorm2d_def bn_ok_def)

lemma bn_ok_even: "bn_ok tr b (2 * h) w"
  by (auto simp: bn_ok_def)

lemma conv3: "0 < h \<Longrightarrow> 0 < w \<Longrightarrow> Conv2d cin cout 3 (Suc 0) (Suc 0) [b, cin, h, w] = Inr [b, cout, h, w]"
  by (simp add: Conv2d_def)

lemma conv1: "0 < h \<Longrightarrow> 0 < w \<Longrightarrow> Conv2d cin cout (Suc 0) 0 (Suc 0) [b, cin, h, w] = Inr [b, cout, h, w]"
  by (simp add: Conv2d_def)

lemma pool_floor:
  "0 < n \<Longrightarrow> 0 < m \<Longrightarrow> avg_pool2d False [b, c, 2 * n, 2 * m] = Inr [b, c, n, m]"
  by (cases n; cases m) (simp_all add: avg_pool2d_def)

lemma Upsample2:
  "0 < h \<Longrightarrow> 0 < w \<Longrightarrow> Upsample 2 [b, c, h, w] = Inr [b, c, 2 * h, 2 * w]"
  by (simp add: Upsample_def interpolate_def mult.commute)

lemma UNetDeepMass_shape:
  assumes "0 < q" "0 < r" and bn: "bn_ok tr b q r"
  shows "bindE (UNetDeepMass_init tr [1, 1])
           (\<lambda>net. UNetDeepMass_forward F_shape net [b, 1, 16 * q, 16 * r])
         = Inr [b, 1, 16 * q, 16 * r]"
proof -
  have p: "avg_pool2d False [b, c, 16 * q, 16 * r] = Inr [b, c, 8 * q, 8 * r]"
    "avg_pool2d False [b, c, 8 * q, 8 * r] = Inr [b, c, 4 * q, 4 * r]"
    "avg_pool2d False [b, c, 4 * q, 4 * r] = Inr [b, c, 2 * q, 2 * r]"
    "avg_pool2d False [b, c, 2 * q, 2 * r] = Inr [b, c, q, r]" for c
    using pool_floor [of "8 * q" "8 * r" b c] pool_floor [of "4 * q" "4 * r" b c]
      pool_floor [of "2 * q" "2 * r" b c] pool_floor [of q r b c] assms(1,2)
    by simp_all
  have u: "Upsample 2 [b, c, q, r] = Inr [b, c, 2 * q, 2 * r]"
    "Upsample 2 [b, c, 2 * q, 2 * r] = Inr [b, c, 4 * q, 4 * r]"
    "Upsample 2 [b, c, 4 * q, 4 * r] = Inr [b, c, 8 * q, 8 * r]"
    "Upsample 2 [b, c, 8 * q, 8 * r] = Inr [b, c, 16 * q, 16 * r]" for c
    using Upsample2 [of q r b c] Upsample2 [of "2 * q" "2 * r" b c]
      Upsample2 [of "4 * q" "4 * r" b c] Upsample2 [of "8 * q" "8 * r" b c] assms(1,2)
    by simp_all
  have e: "bn_ok tr b (16 * q) (16 * r)" "bn_ok tr b (8 * q) (8 * r)"
    "bn_ok tr b (4 * q) (4 * r)" "bn_ok tr b (2 * q) (2 * r)"
    using bn_ok_even [of tr b "8 * q" "16 * r"] bn_ok_even [of tr b "4 * q" "8 * r"]
      bn_ok_even [of tr b "2 * q" "4 * r"] bn_ok_even [of tr b q "2 * r"]
    by simp_all
  show ?thesis
    using assms(1,2) bn e
    by (simp add: UNetDeepMass_init_def UNetDeepMass_forward_def p u BatchNorm2d_ok conv3 conv1
        cat2 Let_def)
qed


lemma half5_32: "0 < k \<Longrightarrow> half (half (half (half (half (32 * k))))) = k"
  using half_double [of "16 * k"] half_double [of "8 * k"] half_double [of "4 * k"]
    half_double [of "2 * k"] half_double [of k]
  by simp

subsection \<open>Tensor values follow tensor sizes\<close>

lemma sim_bind:
  "map_result p m = ms \<Longrightarrow> (\<And>y. m = Inr y \<Longrightarrow> map_result q (f y) = g (p y))
   \<Longrightarrow> map_result q (bindE m f) = bindE ms g"
  by (cases m) auto

lemma cat_sim: "map_result dims (concat_channels ts) = cat (map dims ts)"
  by (auto simp: concat_channels_def cat_def list_all_iff comp_def split: list.splits)

lemma pop_sim: "map_result (map_prod f (map f)) (pop xs) = pop (map f xs)"
  by (simp add: pop_def last_map map_butlast)

lemma layer_forward_sim:
  assumes "torch_semantics tr nn F" and "lsim l l'"
  shows "map_result dims (layer_forward F l t) = layer_forward F_shape l' (dims t)"
proof -
  have r: "dims (F_relu F z) = dims z" for z using assms(1) by (simp add: torch_semantics_def)
  have p: "map_result dims (F_avg_pool2d F z) = avg_pool2d True (dims z)" for z
    using assms(1) by (simp add: torch_semantics_def)
  show ?thesis
    using assms(2)
    by (cases l; cases l')
       (auto simp: msim_def r p intro!: sim_bind [where p = dims and q = dims])
qed

lemma layer_forward2_sim:
  assumes "torch_semantics tr nn F" and "lsim l l'"
  shows "map_result dims (layer_forward2 F l a b) = layer_forward2 F_shape l' (dims a) (dims b)"
proof -
  have r: "dims (F_relu F z) = dims z" for z using assms(1) by (simp add: torch_semantics_def)
  have i: "map_result dims (F_interpolate F z sz) = interpolate (dims z) sz" for z sz
    using assms(1) by (simp add: torch_semantics_def)
  have c: "torch_cat F = concat_channels" "tensor_shape F = dims"
    using assms(1) by (simp_all add: torch_semantics_def)
  show ?thesis
    using assms(2)
    by (cases l; cases l')
       (auto simp: msim_def r i c cat_sim intro!: sim_bind [where p = dims and q = dims])
qed

lemma encode_loop_sim:
  assumes "list_all2 msim ms ms'"
  shows "map_result (map dims) (encode_loop ms t acc) = encode_loop ms' (dims t) (map dims acc)"
  using assms
proof (induction ms ms' arbitrary: t acc rule: list_all2_induct)
  case Nil
  show ?case by simp
next
  case (Cons m ms m' ms')
  show ?case
    using Cons.hyps(1) Cons.IH
    by (auto simp: msim_def intro!: sim_bind [where p = dims and q = "map dims"])
qed

lemma decode_loop_sim:
  assumes "list_all2 msim2 ms ms'"
  shows "map_result dims (decode_loop ms t encs) = decode_loop ms' (dims t) (map dims encs)"
  using assms
proof (induction ms ms' arbitrary: t encs rule: list_all2_induct)
  case Nil
  show ?case by simp
next
  case (Cons m ms m' ms')
  show ?case
    using Cons.hyps(1) Cons.IH
    apply simp
    apply (rule sim_bind [where p = "map_prod dims (map dims)"])
     apply (rule pop_sim)
    apply (auto simp: msim2_def intro!: sim_bind [where p = dims and q = dims])
    done
qed

lemma layers_sim:
  assumes "torch_semantics tr nn F" and "list_all2 lsim ls ls'"
  shows "list_all2 msim (map (layer_forward F) ls) (map (layer_forward F_shape) ls')"
  using assms(2) layer_forward_sim [OF assms(1)]
  by (simp add: list_all2_map1 list_all2_map2 msim_def list_all2_mono)

lemma layers2_sim:
  assumes "torch_semantics tr nn F" and "list_all2 lsim ls ls'"
  shows "list_all2 msim2 (map (layer_forward2 F) ls) (map (layer_forward2 F_shape) ls')"
  using assms(2) layer_forward2_sim [OF assms(1)]
  by (simp add: list_all2_map1 list_all2_map2 msim2_def list_all2_mono)

lemma layers4F_sim:
  assumes "torch_semantics tr nn F" and "list_all2 lsim ls ls'"
  shows "list_all2 msim2 (map (\<lambda>m x x2. bindE (torch_cat F [x, x2]) (layer_forward F m)) ls)
           (map (\<lambda>m x x2. bindE (cat [x, x2]) (layer_forward F_shape m)) ls')"
proof -
  have c: "torch_cat F = concat_channels" using assms(1) by (simp add: torch_semantics_def)
  have "msim2 (\<lambda>x x2. bindE (torch_cat F [x, x2]) (layer_forward F l))
          (\<lambda>x x2. bindE (cat [x, x2]) (layer_forward F_shape l'))"
    if "lsim l l'" for l l'
    unfolding msim2_def
    by (auto simp: c cat_sim layer_forward_sim [OF assms(1) that]
        intro!: sim_bind [where p = dims and q = dims])
  with assms(2) show ?thesis
    by (simp add: list_all2_map1 list_all2_map2 list_all2_mono)
qed

lemma decode_sim:
  assumes "list_all2 msim es es'" and "list_all2 msim2 ds ds'"
  shows "map_result dims
           (bindE (encode_loop es t []) (\<lambda>encode_outputs.
            bindE (pop encode_outputs) (\<lambda>(x, encode_outputs). decode_loop ds x encode_outputs)))
         = bindE (encode_loop es' (dims t) []) (\<lambda>encode_outputs.
            bindE (pop encode_outputs) (\<lambda>(x, encode_outputs). decode_loop ds' x encode_outputs))"
  apply (rule sim_bind [where p = "map dims"])
  using encode_loop_sim [OF assms(1), of t "[]"] apply simp
  apply (rule sim_bind [where p = "map_prod dims (map dims)"])
   apply (rule pop_sim)
  apply (auto simp: decode_loop_sim [OF assms(2)])
  done

lemma block_forward_sim:
  assumes "torch_semantics tr nn F" and "bsim blk blk'"
  shows "map_result dims (block_forward F blk t) = block_forward F_shape blk' (dims t)"
proof -
  have a: "map_result dims (tensor_add F x y) = add (dims x) (dims y)" for x y
    using assms(1) by (simp add: torch_semantics_def)
  show ?thesis
  proof (cases blk)
    case (RSU c e d)
    with assms(2) obtain c' e' d' where b': "blk' = RSU c' e' d'" and l: "lsim c c'"
      and e: "list_all2 lsim e e'" and d: "list_all2 lsim d d'"
      by (cases blk') auto
    show ?thesis
      unfolding RSU b'
      apply (simp add: RSU_forward_def RSU_decode_def)
      apply (rule sim_bind [where p = dims])
       apply (rule layer_forward_sim [OF assms(1) l])
      apply (rule sim_bind [where p = dims])
       apply (rule decode_sim [OF layers_sim [OF assms(1) e] layers2_sim [OF assms(1) d]])
      apply (simp add: a)
      done
  next
    case (RSU4F c e d)
    with assms(2) obtain c' e' d' where b': "blk' = RSU4F c' e' d'" and l: "lsim c c'"
      and e: "list_all2 lsim e e'" and d: "list_all2 lsim d d'"
      by (cases blk') auto
    show ?thesis
      unfolding RSU4F b'
      apply (simp add: RSU4F_forward_def RSU4F_decode_def)
      apply (rule sim_bind [where p = dims])
       apply (rule layer_forward_sim [OF assms(1) l])
      apply (rule sim_bind [where p = dims])
       apply (rule decode_sim [OF layers_sim [OF assms(1) e] layers4F_sim [OF assms(1) d]])
      apply (simp add: a)
      done
  qed
qed

lemma U2Net_encode_sim:
  assumes "torch_semantics tr nn F" and "list_all2 bsim ms ms'"
  shows "map_result (map dims) (U2Net_encode F n ms i t acc)
           = U2Net_encode F_shape n ms' i (dims t) (map dims acc)"
  using assms(2)
proof (induction ms ms' arbitrary: t acc i rule: list_all2_induct)
  case Nil
  show ?case by simp
next
  case (Cons m ms m' ms')
  have p: "map_result dims (F_avg_pool2d F z) = avg_pool2d True (dims z)" for z
    using assms(1) by (simp add: torch_semantics_def)
  show ?case
    apply simp
    apply (rule sim_bind [where p = dims])
     apply (rule block_forward_sim [OF assms(1) Cons.hyps(1)])
    apply (rule sim_bind [where p = dims])
     apply (simp add: p)
    apply (simp add: Cons.IH)
    done
qed

lemma U2Net_decode_sim:
  assumes "torch_semantics tr nn F" and "list_all2 bsim ms ms'"
  shows "map_result (map dims) (U2Net_decode F ms t encs decs)
           = U2Net_decode F_shape ms' (dims t) (map dims encs) (map dims decs)"
  using assms(2)
proof (induction ms ms' arbitrary: t encs decs rule: list_all2_induct)
  case Nil
  show ?case by simp
next
  case (Cons m ms m' ms')
  have i: "map_result dims (F_interpolate F z sz) = interpolate (dims z) sz" for z sz
    using assms(1) by (simp add: torch_semantics_def)
  have c: "torch_cat F = concat_channels" "tensor_shape F = dims"
    using assms(1) by (simp_all add: torch_semantics_def)
  show ?case
    apply simp
    apply (rule sim_bind [where p = "map_prod dims (map dims)"])
     apply (rule pop_sim)
    apply (clarsimp simp: c)
    apply (rule sim_bind [where p = dims])
     apply (rule i)
    apply (rule sim_bind [where p = dims])
     apply (simp add: cat_sim)
    apply (rule sim_bind [where p = dims])
     apply (rule block_forward_sim [OF assms(1) Cons.hyps(1)])
    apply (simp add: Cons.IH)
    done
qed

lemma U2Net_sides_sim:
  assumes "torch_semantics tr nn F" and "list_all2 msim ms ms'"
  shows "map_result (map dims) (U2Net_sides F h w ms decs acc)
           = U2Net_sides F_shape h w ms' (map dims decs) (map dims acc)"
  using assms(2)
proof (induction ms ms' arbitrary: decs acc rule: list_all2_induct)
  case Nil
  show ?case by simp
next
  case (Cons m ms m' ms')
  have i: "map_result dims (F_interpolate F z sz) = interpolate (dims z) sz" for z sz
    using assms(1) by (simp add: torch_semantics_def)
  have m: "map_result dims (m z) = m' (dims z)" for z
    using Cons.hyps(1) by (simp add: msim_def)
  show ?case
    apply simp
    apply (rule sim_bind [where p = "map_prod dims (map dims)"])
     apply (rule pop_sim)
    apply clarsimp
    apply (rule sim_bind [where p = dims])
     apply (rule m)
    apply (rule sim_bind [where p = dims])
     apply (rule i)
    apply (simp add: Cons.IH)
    done
qed

lemma layer_init_sim:
  assumes "torch_semantics tr nn F"
  shows "lsim (ConvBNReLU_init nn a c k d) (ConvBNReLU_init (nn_sizes tr) a c k d)"
    and "lsim (DownConvBNReLU_init nn a c k d f) (DownConvBNReLU_init (nn_sizes tr) a c k d f)"
    and "lsim (UpConvBNReLU_init nn a c k d f) (UpConvBNReLU_init (nn_sizes tr) a c k d f)"
  using assms
  by (simp_all add: ConvBNReLU_init_def DownConvBNReLU_init_def UpConvBNReLU_init_def Let_def
      msim_def torch_semantics_def)

lemma RSU_modules_sim:
  assumes "torch_semantics tr nn F"
  shows "bsim (RSU_modules nn n a m c) (RSU_modules (nn_sizes tr) n a m c)"
  by (auto simp: RSU_modules_def Let_def layer_init_sim [OF assms] list_all2_map1 list_all2_map2
      list_all2_same intro!: list_all2_appendI)

lemma RSU4F_init_sim:
  assumes "torch_semantics tr nn F"
  shows "bsim (RSU4F_init nn a m c) (RSU4F_init (nn_sizes tr) a m c)"
  by (simp add: RSU4F_init_def layer_init_sim [OF assms])

lemma out_conv_sim: "msim (conv2d_1x1 init_1x1_w init_1x1_b) (Conv2d 6 (Suc 0) (Suc 0) 0 (Suc 0))"
  by (auto simp: msim_def conv2d_1x1_def Conv2d_def init_1x1_w_def init_1x1_b_def
      split: list.splits)

lemma u2net_full_modules:
  "u2net_full nn (Suc 0) 2 ''1x1conv'' =
     Inr \<lparr>mode = ''1x1conv'', encode_num = 6,
          encode_modules = [RSU_modules nn 7 2 32 64, RSU_modules nn 6 64 32 128,
            RSU_modules nn 5 128 64 256, RSU_modules nn 4 256 128 512,
            RSU4F_init nn 512 256 512, RSU4F_init nn 512 256 512],
          decode_modules = [RSU4F_init nn 1024 256 512, RSU_modules nn 4 1024 128 256,
            RSU_modules nn 5 512 64 128, RSU_modules nn 6 256 32 64, RSU_modules nn 7 128 16 64],
          side_modules = [nn_Conv2d nn 512 1 3 1 1, nn_Conv2d nn 512 1 3 1 1,
            nn_Conv2d nn 256 1 3 1 1, nn_Conv2d nn 128 1 3 1 1, nn_Conv2d nn 64 1 3 1 1,
            nn_Conv2d nn 64 1 3 1 1],
          out_conv = nn_Conv2d_1x1 nn init_1x1_w init_1x1_b\<rparr>"
  by (simp add: u2net_full_def U2Net_init_def RSU_init_def)

lemma U2Net_forward_sim:
  assumes sem: "torch_semantics tr nn F"
    and n: "u2net_full nn (Suc 0) 2 ''1x1conv'' = Inr net"
    and n': "u2net_full (nn_sizes tr) (Suc 0) 2 ''1x1conv'' = Inr net'"
  shows "map_result (map dims) (U2Net_forward F net x) = U2Net_forward F_shape net' (dims x)"
proof -
  have c: "torch_cat F = concat_channels" "tensor_shape F = dims" "nn_Conv2d_1x1 nn = conv2d_1x1"
    using sem by (simp_all add: torch_semantics_def)
  have cv: "msim (nn_Conv2d nn a b k p d) (Conv2d a b k p d)" for a b k p d
    using sem by (simp add: torch_semantics_def msim_def)
  have m: "mode net = ''1x1conv''" "mode net' = ''1x1conv''"
    "encode_num net = encode_num net'"
    using n n' unfolding u2net_full_modules by auto
  have e: "list_all2 bsim (encode_modules net) (encode_modules net')"
    using n n' unfolding u2net_full_modules
    by (auto simp: RSU_modules_sim [OF sem] RSU4F_init_sim [OF sem])
  have d: "list_all2 bsim (decode_modules net) (decode_modules net')"
    using n n' unfolding u2net_full_modules
    by (auto simp: RSU_modules_sim [OF sem] RSU4F_init_sim [OF sem])
  have s: "list_all2 msim (side_modules net) (side_modules net')"
    using n n' unfolding u2net_full_modules by (auto simp: cv)
  have o: "map_result dims (out_conv net z) = out_conv net' (dims z)" for z
    using n n' out_conv_sim unfolding u2net_full_modules by (auto simp: c msim_def)
  show ?thesis
  proof (cases "\<exists>b c h w. dims x = [b, c, h, w]")
    case False
    then show ?thesis
      by (auto simp: U2Net_forward_def c split: list.splits)
  next
    case True
    then obtain b c0 h w where x: "dims x = [b, c0, h, w]" by blast
    show ?thesis
      apply (simp add: U2Net_forward_def c x m)
      apply (rule sim_bind [where p = "map dims"])
      using U2Net_encode_sim [OF sem e, of "encode_num net'" 0 x "[]"] apply (simp add: m x)
      apply (rule sim_bind [where p = "map_prod dims (map dims)"])
       apply (rule pop_sim)
      apply clarsimp
      apply (rule sim_bind [where p = "map dims"])
      subgoal for encs x6 encs'
        using U2Net_decode_sim [OF sem d, of x6 encs' "[x6]"] by simp
      apply (rule sim_bind [where p = "map dims"])
      subgoal for encs x6 encs' decs
        using U2Net_sides_sim [OF sem s, of h w decs "[]"] by simp
      apply (rule sim_bind [where p = dims])
       apply (simp add: cat_sim)
      apply (rule sim_bind [where p = dims])
       apply (rule o)
      apply simp
      done
  qed
qed

lemma ex_run:
  "map_result (map (\<lambda>t. (dims t, elem t 1 0 31 5)))
         (bindE (u2net_full ex_nn 1 2 ''1x1conv'') (\<lambda>net. U2Net_forward ex_F net ex_x))
   = Inr [([2, 1, 32, 32], 256), ([2, 1, 32, 32], 64), ([2, 1, 32, 32], 64), ([2, 1, 32, 32], 128),
       ([2, 1, 32, 32], 256), ([2, 1, 32, 32], 512), ([2, 1, 32, 32], 512)]"
  by code_simp

lemma map_result_dims: "map_result dims (map_result (\<lambda>s. t\<lparr>dims := s\<rparr>) r) = r"
  by (cases r) simp_all

lemma ex_semantics: "torch_semantics True ex_nn ex_F"
  unfolding torch_semantics_def ex_nn_def ex_F_def
  by (auto simp: map_result_dims map_result_def split: sum.splits)

lemma length6: "length xs = 6 \<Longrightarrow> \<exists>a b c d e f. xs = [a, b, c, d, e, f]"
  by (auto simp: eval_nat_numeral length_Suc_conv)

lemma upt_6: "[0..<6] = [0, 1, 2, 3, 4, 5]"
  by (simp add: upt_rec)

lemma fuse_six:
  assumes "length sides = 6" and "\<forall>s \<in> set sides. dims s = [b, 1, h, w]"
    and "0 < h" and "0 < w"
  shows "\<exists>r. bindE (concat_channels sides) (conv2d_1x1 init_1x1_w init_1x1_b) = Inr r
           \<and> dims r = [b, 1, h, w]
           \<and> (\<forall>n y x. elem r n 0 y x = sum_list (map (\<lambda>s. elem s n 0 y x) sides) / 6)"
proof -
  from length6 [OF assms(1)] obtain s0 s1 s2 s3 s4 s5 where s: "sides = [s0, s1, s2, s3, s4, s5]"
    by blast
  with assms(2) have d: "dims s0 = [b, 1, h, w]" "dims s1 = [b, 1, h, w]" "dims s2 = [b, 1, h, w]"
    "dims s3 = [b, 1, h, w]" "dims s4 = [b, 1, h, w]" "dims s5 = [b, 1, h, w]"
    by simp_all
  have c: "concat_channels sides = Inr \<lparr>dims = [b, 6, h, w], elem = cat_elem sides\<rparr>"
    by (simp add: concat_channels_def s d)
  have w6: "replicate 6 (1 / 6 :: real) = [1/6, 1/6, 1/6, 1/6, 1/6, 1/6]"
    by (simp add: eval_nat_numeral)
  show ?thesis
    unfolding c using assms(3,4)
    by (simp add: conv2d_1x1_def init_1x1_w_def init_1x1_b_def w6 upt_6 s d field_simps)
qed

lemma forward_1x1conv:
  assumes "mode net = ''1x1conv''" and "U2Net_forward F net x = Inr outs"
  shows "\<exists>b c h w encs x6 encs' decs sides y.
           tensor_shape F x = [b, c, h, w]
         \<and> U2Net_encode F (encode_num net) (encode_modules net) 0 x [] = Inr encs
         \<and> pop encs = Inr (x6, encs')
         \<and> U2Net_decode F (decode_modules net) x6 encs' [x6] = Inr decs
         \<and> U2Net_sides F h w (side_modules net) decs [] = Inr sides
         \<and> bindE (torch_cat F sides) (out_conv net) = Inr y \<and> outs = y # sides"
  using assms
  by (auto simp: U2Net_forward_def bindE_eq_Inr split: list.splits prod.splits)

lemma sides_shape:
  assumes "U2Net_sides F_shape h w ms decs acc = Inr ss"
    and "\<forall>m \<in> set ms. \<exists>c. m = Conv2d c (Suc 0) 3 (Suc 0) (Suc 0)"
    and "\<forall>s \<in> set acc. \<exists>b. s = [b, Suc 0, h, w]"
  shows "length ss = length acc + length ms \<and> (\<forall>s \<in> set ss. \<exists>b. s = [b, Suc 0, h, w])"
  using assms
proof (induction ms arbitrary: decs acc)
  case Nil
  then show ?case by simp
next
  case (Cons m ms)
  from Cons.prems(2) obtain c where m: "m = Conv2d c (Suc 0) 3 (Suc 0) (Suc 0)" by auto
  from Cons.prems(1) obtain d decs' y z where 1: "pop decs = Inr (d, decs')" "m d = Inr y"
    "interpolate y [h, w] = Inr z" "U2Net_sides F_shape h w ms decs' (z # acc) = Inr ss"
    by (auto simp: bindE_eq_Inr)
  from 1(2) obtain b hh ww where y: "y = [b, Suc 0, hh, ww]"
    unfolding m by (auto simp: Conv2d_def split: list.splits if_splits)
  from 1(3) have z: "z = [b, Suc 0, h, w]"
    unfolding y by (auto simp: interpolate_def split: if_splits)
  have "length ss = length (z # acc) + length ms \<and> (\<forall>s \<in> set ss. \<exists>b. s = [b, Suc 0, h, w])"
    using Cons.prems(2,3) by (intro Cons.IH [OF 1(4)]) (auto simp: z)
  then show ?case by simp
qed

lemma cat_same_batch:
  assumes "cat ss = Inr c" and "\<forall>s \<in> set ss. \<exists>b. s = [b, Suc 0, h, w]"
  shows "\<exists>b. \<forall>s \<in> set ss. s = [b, Suc 0, h, w]"
proof -
  from assms(1) obtain b where "\<forall>s \<in> set ss. s ! 0 = b"
    by (auto simp: cat_def list_all_iff split: list.splits if_splits)
  with assms(2) have "\<forall>s \<in> set ss. s = [b, Suc 0, h, w]" by fastforce
  then show ?thesis by blast
qed

lemma half5: "half (half (half (half (half h)))) = (h - 1) div 32 + 1"
proof -
  have "(h - 1) div 2 div 2 div 2 div 2 div 2 = (h - 1) div 32"
    by (simp add: div_mult2_eq [symmetric])
  then show ?thesis by (simp add: half_def)
qed

lemma bn_ok_32:
  assumes "0 < h" "0 < w" and "tr \<longrightarrow> b \<noteq> 1 \<or> 32 < h \<or> 32 < w"
  shows "bn_ok tr b (half (half (half (half (half h))))) (half (half (half (half (half w)))))"
proof -
  define H where "H = half (half (half (half (half h))))"
  define W where "W = half (half (half (half (half w))))"
  have H: "\<not> 32 < h" if "H = 1" using that by (auto simp: H_def half5 div_eq_0_iff)
  have W: "\<not> 32 < w" if "W = 1" using that by (auto simp: W_def half5 div_eq_0_iff)
  have "b = 1 \<and> H = 1 \<and> W = 1" if "b * H * W = 1" using that by simp
  with H W assms(3) have "\<not> (tr \<and> b * H * W = 1)" by blast
  then show ?thesis unfolding bn_ok_def H_def W_def .
qed

subsection \<open>Claims\<close>

text \<open>
  C5 as stated fails for the network as built: a module is in training mode after
  construction, and there batch normalisation rejects a single map of one pixel, which is
  what the deepest stages see for an input of size \<open>(1, 2, 32, 32)\<close>; in evaluation
  mode the same input is accepted. An input of height and width 0, which 32 divides too,
  is rejected by the first convolution of either network in either mode.
\<close>

theorem u2net_training_batch_norm_counterexample:
  "u2net_full_call True ''1x1conv'' [1, 2, 32, 32] = Inl ValueError
   \<and> u2net_full_call False ''1x1conv'' [1, 2, 32, 32] \<noteq> Inl ValueError
   \<and> u2net_full_call False ''1x1conv'' [1, 2, 0, 0] = Inl RuntimeError
   \<and> UNetDeepMass_call False [1, 1] [1, 1, 0, 0] = Inl RuntimeError"
  by code_simp

text \<open>
  C5, amended. For every input of size \<open>(b, 2, 32 k, 32 m)\<close> with \<open>k, m \<ge> 1\<close> (height and
  width positive multiples of 32) and any batch size \<open>b\<close>, the network built by u2net_full,
  in either output-combination mode, returns a list whose first element (the primary
  output) has size \<open>(b, 1, 32 k, 32 m)\<close>, provided the network is in evaluation mode or
  \<open>b * k * m\<close> is not 1. For every input of size \<open>(b, 1, 32 k, 32 m)\<close> with \<open>k, m \<ge> 1\<close> the
  simple network with channels \<open>[1, 1]\<close> returns an output of that same size, in training
  and in evaluation mode alike.
\<close>

theorem network_output_shapes:
  assumes "0 < k" and "0 < m"
    and "md = ''1x1conv'' \<or> md = ''laplacian_pyr''"
  shows "((training \<longrightarrow> b * k * m \<noteq> 1) \<longrightarrow>
           (\<exists>outs. u2net_full_call training md [b, 2, 32 * k, 32 * m]
                      = Inr ([b, 1, 32 * k, 32 * m] # outs)))
       \<and> UNetDeepMass_call training [1, 1] [b, 1, 32 * k, 32 * m] = Inr [b, 1, 32 * k, 32 * m]"
proof (intro conjI impI)
  assume t: "training \<longrightarrow> b * k * m \<noteq> 1"
  have bn: "bn_ok training b (half (half (half (half (half (32 * k))))))
              (half (half (half (half (half (32 * m))))))"
    using assms(1,2) t by (simp add: half5_32 bn_ok_def)
  have pos: "0 < 32 * k" "0 < 32 * m" "32 \<le> 32 * k" "32 \<le> 32 * m" using assms(1,2) by simp_all
  show "\<exists>outs. u2net_full_call training md [b, 2, 32 * k, 32 * m]
             = Inr ([b, 1, 32 * k, 32 * m] # outs)"
    using assms(3) u2net_1x1conv_shape [OF pos(1,2) bn] u2net_laplacian_shape [OF pos(3,4) bn]
    unfolding u2net_full_call_def by auto
next
  have "bn_ok training b (2 * k) (2 * m)" by (rule bn_ok_even)
  from UNetDeepMass_shape [OF _ _ this] assms(1,2)
  show "UNetDeepMass_call training [1, 1] [b, 1, 32 * k, 32 * m] = Inr [b, 1, 32 * k, 32 * m]"
    unfolding UNetDeepMass_call_def by simp
qed

theorem network_output_shapes_witness:
  "(0::nat) < 1 \<and> (2::nat) * 1 * 1 \<noteq> 1
   \<and> (\<exists>outs. u2net_full_call True ''1x1conv'' [2, 2, 32, 32] = Inr ([2, 1, 32, 32] # outs))
   \<and> (\<exists>outs. u2net_full_call False ''laplacian_pyr'' [1, 2, 32, 32] = Inr ([1, 1, 32, 32] # outs))
   \<and> UNetDeepMass_call True [1, 1] [1, 1, 32, 32] = Inr [1, 1, 32, 32]"
  using network_output_shapes [where k = 1 and m = 1 and md = "''1x1conv''"
      and training = True and b = 2]
    network_output_shapes [where k = 1 and m = 1 and md = "''laplacian_pyr''"
      and training = False and b = 1]
    network_output_shapes [where k = 1 and m = 1 and md = "''1x1conv''"
      and training = True and b = 1]
  by simp

text \<open>
  C4. Let the torch operations on tensor values be any that follow the size semantics,
  the concatenation and the convolution with a given weight being the ones defined above,
  and let \<open>net\<close> be the network that \<^verbatim>\<open>u2net_full\<close> builds in the mode \<^verbatim>\<open>1x1conv\<close>, before
  any training. Whenever its forward pass returns, what it returns is the fused output
  followed by the six side outputs, which are the ones the encoder loop, the decoder loop
  and the loop of the side convolutions and upsamplings compute, and every element of the
  fused output is the arithmetic mean of the six side outputs at that position. The
  forward pass does return on every input of two channels and positive height and width,
  unless the modules are in training mode and the input is a single batch entry of at
  most 32 by 32 pixels.
\<close>

theorem fusion_is_average:
  assumes sem: "torch_semantics training nn F"
    and net: "u2net_full nn 1 2 ''1x1conv'' = Inr net"
  shows "(\<forall>outs. U2Net_forward F net x = Inr outs \<longrightarrow>
           (\<exists>b c h w encs x6 encs' decs sides y.
                dims x = [b, c, h, w]
              \<and> U2Net_encode F (encode_num net) (encode_modules net) 0 x [] = Inr encs
              \<and> pop encs = Inr (x6, encs')
              \<and> U2Net_decode F (decode_modules net) x6 encs' [x6] = Inr decs
              \<and> U2Net_sides F h w (side_modules net) decs [] = Inr sides
              \<and> outs = y # sides \<and> length sides = 6
              \<and> (\<forall>n i j. elem y n 0 i j = sum_list (map (\<lambda>s. elem s n 0 i j) sides) / 6)))
       \<and> ((\<exists>b h w. dims x = [b, 2, h, w] \<and> 0 < h \<and> 0 < w
                   \<and> (training \<longrightarrow> b \<noteq> 1 \<or> 32 < h \<or> 32 < w))
            \<longrightarrow> (\<exists>outs. U2Net_forward F net x = Inr outs))"
proof (intro conjI allI impI)
  have c: "torch_cat F = concat_channels" "tensor_shape F = dims" "nn_Conv2d_1x1 nn = conv2d_1x1"
    using sem by (simp_all add: torch_semantics_def)
  from net have net1: "u2net_full nn (Suc 0) 2 ''1x1conv'' = Inr net" by simp
  obtain net' where net': "u2net_full (nn_sizes training) (Suc 0) 2 ''1x1conv'' = Inr net'"
    by (simp add: u2net_full_modules)
  note sim = U2Net_forward_sim [OF sem net1 net']
  have m: "mode net = ''1x1conv''" "mode net' = ''1x1conv''"
    "out_conv net = conv2d_1x1 init_1x1_w init_1x1_b"
    "out_conv net' = Conv2d 6 (Suc 0) (Suc 0) 0 (Suc 0)"
    "\<forall>m \<in> set (side_modules net'). \<exists>c. m = Conv2d c (Suc 0) 3 (Suc 0) (Suc 0)"
    using net1 net' unfolding u2net_full_modules by (auto simp: c)
  {
    fix outs
    assume o: "U2Net_forward F net x = Inr outs"
    from forward_1x1conv [OF m(1) o] obtain b c0 h w encs x6 encs' decs sides y where
      1: "dims x = [b, c0, h, w]"
      "U2Net_encode F (encode_num net) (encode_modules net) 0 x [] = Inr encs"
      "pop encs = Inr (x6, encs')"
      "U2Net_decode F (decode_modules net) x6 encs' [x6] = Inr decs"
      "U2Net_sides F h w (side_modules net) decs [] = Inr sides"
      and f: "bindE (concat_channels sides) (conv2d_1x1 init_1x1_w init_1x1_b) = Inr y"
      and outs: "outs = y # sides"
      unfolding c m(3) by blast
    from sim [of x] o have o': "U2Net_forward F_shape net' (dims x) = Inr (map dims outs)"
      by simp
    from forward_1x1conv [OF m(2) o'] obtain decs' sides' y' c' where
      2: "U2Net_sides F_shape h w (side_modules net') decs' [] = Inr sides'"
      "bindE (cat sides') (Conv2d 6 (Suc 0) (Suc 0) 0 (Suc 0)) = Inr y'"
      "map dims outs = y' # sides'"
      unfolding m(4) 1(1) by auto
    from sides_shape [OF 2(1) m(5)] have 3: "length sides' = length (side_modules net')"
      "\<forall>s \<in> set sides'. \<exists>b. s = [b, Suc 0, h, w]"
      by simp_all
    from 2(2) obtain cc where cc: "cat sides' = Inr cc" "Conv2d 6 (Suc 0) (Suc 0) 0 (Suc 0) cc = Inr y'"
      by (auto simp: bindE_eq_Inr)
    from cat_same_batch [OF cc(1) 3(2)] obtain b' where
      b': "\<forall>s \<in> set sides'. s = [b', Suc 0, h, w]" by blast
    have l: "length (side_modules net') = 6"
      using net' unfolding u2net_full_modules by auto
    from 2(3) outs have ms: "sides' = map dims sides" by simp
    have len: "length sides = 6" using 3(1) l ms by simp
    have ds: "\<forall>s \<in> set sides. dims s = [b', 1, h, w]" using b' ms by simp
    have pos: "0 < h" "0 < w"
    proof -
      from len obtain s0 rest where "sides = s0 # rest" by (cases sides) auto
      with ds ms cc(1) have "cc = [b', sum_list (map (\<lambda>s. s ! 1) sides'), h, w]"
        by (auto simp: cat_def split: if_splits)
      with cc(2) show "0 < h" "0 < w" by (auto simp: Conv2d_def split: if_splits)
    qed
    from fuse_six [OF len ds pos] f
    have "\<forall>n i j. elem y n 0 i j = sum_list (map (\<lambda>s. elem s n 0 i j) sides) / 6"
      by auto
    with 1 outs len
    show "\<exists>b c h w encs x6 encs' decs sides y.
                dims x = [b, c, h, w]
              \<and> U2Net_encode F (encode_num net) (encode_modules net) 0 x [] = Inr encs
              \<and> pop encs = Inr (x6, encs')
              \<and> U2Net_decode F (decode_modules net) x6 encs' [x6] = Inr decs
              \<and> U2Net_sides F h w (side_modules net) decs [] = Inr sides
              \<and> outs = y # sides \<and> length sides = 6
              \<and> (\<forall>n i j. elem y n 0 i j = sum_list (map (\<lambda>s. elem s n 0 i j) sides) / 6)"
      by blast
  }
  assume "\<exists>b h w. dims x = [b, 2, h, w] \<and> 0 < h \<and> 0 < w
                   \<and> (training \<longrightarrow> b \<noteq> 1 \<or> 32 < h \<or> 32 < w)"
  then obtain b h w where x: "dims x = [b, 2, h, w]" "0 < h" "0 < w"
    "training \<longrightarrow> b \<noteq> 1 \<or> 32 < h \<or> 32 < w" by blast
  from u2net_1x1conv_shape [OF x(2,3) bn_ok_32 [OF x(2,3,4)]] net'
  have "\<exists>r. U2Net_forward F_shape net' (dims x) = Inr r" by (simp add: x(1))
  with sim [of x] show "\<exists>outs. U2Net_forward F net x = Inr outs"
    by (auto simp: map_result_eq_Inr)
qed

theorem fusion_is_average_witness:
  "torch_semantics True ex_nn ex_F
   \<and> dims ex_x = [2, 2, 32, 32]
   \<and> (\<exists>net y sides. u2net_full ex_nn 1 2 ''1x1conv'' = Inr net
         \<and> U2Net_forward ex_F net ex_x = Inr (y # sides)
         \<and> map (\<lambda>s. elem s 1 0 31 5) sides = [64, 64, 128, 256, 512, 512]
         \<and> elem y 1 0 31 5 = 256)"
proof -
  obtain net where net: "u2net_full ex_nn 1 2 ''1x1conv'' = Inr net"
    by (simp add: u2net_full_modules)
  note T = fusion_is_average [OF ex_semantics net, of ex_x]
  have d: "dims ex_x = [2, 2, 32, 32]" by (simp add: ex_x_def)
  from T d obtain outs where o: "U2Net_forward ex_F net ex_x = Inr outs" by auto
  with T obtain y sides where 1: "outs = y # sides"
    "\<forall>n i j. elem y n 0 i j = sum_list (map (\<lambda>s. elem s n 0 i j) sides) / 6"
    by blast
  have "map (\<lambda>s. elem s 1 0 31 5) sides = map snd (map (\<lambda>t. (dims t, elem t 1 0 31 5)) sides)"
    by (simp add: comp_def)
  also from ex_run net o 1(1)
  have "map (\<lambda>t. (dims t, elem t 1 0 31 5)) sides
          = [([2, 1, 32, 32], 64), ([2, 1, 32, 32], 64), ([2, 1, 32, 32], 128),
             ([2, 1, 32, 32], 256), ([2, 1, 32, 32], 512), ([2, 1, 32, 32], 512)]"
    by simp
  finally have s: "map (\<lambda>s. elem s 1 0 31 5) sides = [64, 64, 128, 256, 512, 512]"
    by simp
  from 1(2) have "elem y 1 0 31 5 = sum_list (map (\<lambda>s. elem s 1 0 31 5) sides) / 6" by blast
  with s have e: "elem y 1 0 31 5 = 256" by simp
  from o 1(1) have o2: "U2Net_forward ex_F net ex_x = Inr (y # sides)" by simp
  show ?thesis
    apply (intro conjI)
      apply (rule ex_semantics)
     apply (rule d)
    apply (rule exI [of _ net], rule exI [of _ y], rule exI [of _ sides])
    apply (intro conjI net o2 s e)
    done
qed

text \<open>
  C7 as stated fails: what a block adds to its decoded feature is not its input \<open>x\<close>.
  For the first encoder stage on an input of two channels, and for the first decoder stage
  on its input of 1024 channels, the block returns a tensor of 64 and of 512 channels, while
  adding the block input to the decoded feature is a broadcasting error.
\<close>

theorem residual_is_not_block_input_counterexample:
  "block_forward F_shape (RSU_modules (nn_sizes False) 7 2 32 64) [1, 2, 32, 32] = Inr [1, 64, 32, 32]
   \<and> block_forward_spec F_shape (RSU_modules (nn_sizes False) 7 2 32 64) [1, 2, 32, 32] = Inl RuntimeError
   \<and> block_forward F_shape (RSU4F_init (nn_sizes False) 1024 256 512) [1, 1024, 2, 2] = Inr [1, 512, 2, 2]
   \<and> block_forward_spec F_shape (RSU4F_init (nn_sizes False) 1024 256 512) [1, 1024, 2, 2]
       = Inl RuntimeError"
  by code_simp

text \<open>
  C7, amended. For every input tensor \<open>x\<close>, each residual block (the pooling variant and the
  dilated variant) returns its decoded feature plus \<open>x_in\<close>, the output of the block's input
  convolution layer on \<open>x\<close>, from which the decoded feature is also computed; it returns
  exactly when the input convolution, the decoding and the addition return. This holds for
  every representation of tensors and every choice of the layers.
\<close>

theorem residual_block_adds_conv_in:
  "block_forward F blk x =
     bindE (layer_forward F (block_conv_in blk) x) (\<lambda>x_in.
     bindE (block_decode F blk x_in) (\<lambda>d.
     tensor_add F d x_in))
   \<and> (\<forall>y. block_forward F blk x = Inr y \<longleftrightarrow>
         (\<exists>x_in d. layer_forward F (block_conv_in blk) x = Inr x_in
            \<and> block_decode F blk x_in = Inr d \<and> tensor_add F d x_in = Inr y))"
proof -
  have 1: "block_forward F blk x =
     bindE (layer_forward F (block_conv_in blk) x) (\<lambda>x_in.
     bindE (block_decode F blk x_in) (\<lambda>d.
     tensor_add F d x_in))"
    by (cases blk) (simp_all add: RSU_forward_def RSU4F_forward_def)
  show ?thesis unfolding 1 by (simp add: bindE_eq_Inr)
qed

theorem residual_block_adds_conv_in_witness:
  "block_forward F_shape (RSU_modules (nn_sizes False) 7 2 32 64) [1, 2, 32, 32] = Inr [1, 64, 32, 32]
   \<and> (\<exists>x_in d. layer_forward F_shape (block_conv_in (RSU_modules (nn_sizes False) 7 2 32 64)) [1, 2, 32, 32]
                  = Inr x_in
          \<and> block_decode F_shape (RSU_modules (nn_sizes False) 7 2 32 64) x_in = Inr d
          \<and> tensor_add F_shape d x_in = Inr [1, 64, 32, 32])"
proof -
  have e: "block_forward F_shape (RSU_modules (nn_sizes False) 7 2 32 64) [1, 2, 32, 32] = Inr [1, 64, 32, 32]"
    by code_simp
  with residual_block_adds_conv_in [of F_shape "RSU_modules (nn_sizes False) 7 2 32 64" "[1, 2, 32, 32]"]
  show ?thesis by blast
qed

section \<open>Properties of visu_gaussian_blur.py\<close>

lemma py_int_of_int [simp]: "py_int (real_of_int i) = i"
  by (simp add: py_int_def)

lemma py_round2_of_int [simp]: "py_round2 (real_of_int i) = real_of_int i"
proof -
  have "real_of_int i * 100 = real_of_int (i * 100)" by simp
  then show ?thesis unfolding py_round2_def Let_def by (simp del: of_int_mult)
qed


lemma update_slider_of_int:
  assumes "gf sigma (Some i) = Inr img"
  shows "update_slider gf (st\<lparr>sigma_slider_val := sigma, rad_slider_val := real_of_int i\<rparr>)
         = (st\<lparr>sigma_slider_val := sigma, rad_slider_val := real_of_int i, im2_data := img,
               sigma_text_box_text := Str_float sigma, rad_text_box_text := Str_int i\<rparr>, None)"
  using assms by (simp add: update_slider_def)

lemma ex_float_2: "ex_float ''2'' = Some 2" "ex_float ''abc'' = None"
  by (simp_all add: ex_float_def)

lemma py_round2_2: "py_round2 2 = 2" "py_round2 1 = 1"
  using py_round2_of_int [of 2] py_round2_of_int [of 1] by simp_all

lemma py_int_1: "py_int 1 = 1"
  using py_int_of_int [of 1] by simp




end
